theory Spec2Isabelle
  imports Main "HOL-Library.AList"
begin

section \<open>Errors\<close>

text \<open>
  Every error the modelled functions return, one constructor per \<^verbatim>\<open>errors.New\<close>,
  \<^verbatim>\<open>fmt.Errorf\<close> or sentinel of the source. \<open>GoPanic\<close> is not an error value: it
  stands for a run-time panic of the Go program (a failed type assertion, a reflect call
  on the wrong kind), which unwinds the caller instead of returning.
\<close>

datatype err =
    NotAddressable
  | NotValidAssociation string
  | NotAnAssociation string
  | NoForeignKey string
  | NoPrimaryKey
  | ErrSelectorMissingRetryConnection
  | FieldError string
  | SchemaError string
  | DriverError string
  | GoPanic string

fun returned_as_value :: "err \<Rightarrow> bool" where
  "returned_as_value (GoPanic _) = False"
| "returned_as_value _ = True"

section \<open>Connection selector: Retry (selector.go)\<close>

text \<open>
  \<^verbatim>\<open>func Retry(handler func(Driver) error, drivers ...Driver) (err error)\<close>.
  The handler is a Go closure, so it may act on a state of its own: it is a function from
  the driver and that state to its error (\<open>None\<close> is \<^verbatim>\<open>nil\<close>) and the new state.
  The last component of the result is the trace of the invocations the loop made, each
  with the error it got; it is bookkeeping of the model and decides nothing.
\<close>

type_synonym ('d, 's) handler = "'d \<Rightarrow> 's \<Rightarrow> err option \<times> 's"

fun retry_loop ::
  "('d, 's) handler \<Rightarrow> 'd list \<Rightarrow> err option \<Rightarrow> 's \<Rightarrow> ('d \<times> err option) list
     \<Rightarrow> err option \<times> 's \<times> ('d \<times> err option) list" where
  "retry_loop handler [] e s tr = (e, s, tr)"
| "retry_loop handler (driver # drivers) e s tr =
     (case handler driver s of
        (None, s') \<Rightarrow> (None, s', tr @ [(driver, None)])
      | (Some x, s') \<Rightarrow> retry_loop handler drivers (Some x) s' (tr @ [(driver, Some x)]))"

definition Retry ::
  "('d, 's) handler \<Rightarrow> 'd list \<Rightarrow> 's \<Rightarrow> err option \<times> 's \<times> ('d \<times> err option) list" where
  "Retry handler drivers s =
     (if length drivers = 0 then (Some ErrSelectorMissingRetryConnection, s, [])
      else retry_loop handler drivers None s [])"

text \<open>A handler for the examples: it fails on every driver but \<open>''b''\<close> and counts its calls.\<close>

definition only_b :: "(string, nat) handler" where
  "only_b d n = (if d = ''b'' then (None, Suc n) else (Some (DriverError d), Suc n))"

section \<open>Go values and the reflection helpers\<close>

text \<open>
  What an \<^verbatim>\<open>interface{}\<close> of the program holds: \<open>NilV\<close> is \<^verbatim>\<open>nil\<close>, a struct is the
  list of its fields by name, a map with string keys is the list of its entries, a slice
  is the list of its elements. A pointer to a struct or a slice is modelled by the value
  it points to, and an in-place update through it by returning the updated value.
\<close>

datatype val =
    NilV
  | IntV int
  | StrV string
  | BoolV bool
  | StructV "(string \<times> val) list"
  | SliceV "val list"

text \<open>
  \<^verbatim>\<open>isZeroValue\<close>: \<^verbatim>\<open>v.Interface() == reflect.Zero(v.Type()).Interface()\<close> after
  \<^verbatim>\<open>reflect.Indirect\<close>. On \<^verbatim>\<open>nil\<close> the call \<^verbatim>\<open>v.Interface()\<close> panics; comparing
  values of a type that holds a slice panics as well. A struct equals its zero value when
  each of its fields does; a \<^verbatim>\<open>nil\<close> field is a zero field.
\<close>

fun zero_field :: "val \<Rightarrow> bool option"
  and zero_fields :: "(string \<times> val) list \<Rightarrow> bool option" where
  "zero_field NilV = Some True"
| "zero_field (IntV n) = Some (n = 0)"
| "zero_field (StrV s) = Some (s = [])"
| "zero_field (BoolV b) = Some (\<not> b)"
| "zero_field (StructV fs) = zero_fields fs"
| "zero_field (SliceV xs) = None"
| "zero_fields [] = Some True"
| "zero_fields (f # fs) =
     (case zero_field (snd f) of
        None \<Rightarrow> None
      | Some b \<Rightarrow> (case zero_fields fs of None \<Rightarrow> None | Some c \<Rightarrow> Some (b \<and> c)))"

definition isZeroValue :: "val \<Rightarrow> err + bool" where
  "isZeroValue itf =
     (case itf of
        NilV \<Rightarrow> Inl (GoPanic ''reflect: call of reflect.Value.Interface on zero Value'')
      | _ \<Rightarrow> (case zero_field itf of
                None \<Rightarrow> Inl (GoPanic ''runtime error: comparing uncomparable type'')
              | Some b \<Rightarrow> Inr b))"

text \<open>
  \<^verbatim>\<open>reflections.GetField(obj, name)\<close> of the library the source imports: the value of
  the named field, or an error when \<open>obj\<close> is not a struct or has no such field.
\<close>

definition GetField :: "val \<Rightarrow> string \<Rightarrow> err + val" where
  "GetField obj name =
     (case obj of
        StructV fs \<Rightarrow> (case map_of fs name of None \<Rightarrow> Inl (FieldError name) | Some v \<Rightarrow> Inr v)
      | _ \<Rightarrow> Inl (FieldError name))"

text \<open>\<^verbatim>\<open>strings.Join(elems, sep)\<close>.\<close>

fun Join :: "string list \<Rightarrow> string \<Rightarrow> string" where
  "Join [] sep = []"
| "Join [x] sep = x"
| "Join (x # y # ys) sep = x @ sep @ Join (y # ys) sep"

section \<open>The driver\<close>

text \<open>
  The \<^verbatim>\<open>Driver\<close> interface is the external database. What it answers may depend on
  everything it was asked before, so each method takes the list of the calls made so far,
  and the model appends every call to that list: the list is the state of the database
  as far as this program can change it, and a run that leaves it as it was has issued no
  statement. \<^verbatim>\<open>StmtGet\<close> is \<^verbatim>\<open>Get\<close> of the statement \<^verbatim>\<open>PrepareNamed\<close> returned.
\<close>

datatype call =
    CallNamedExec string val
  | CallPrepareNamed string
  | CallStmtGet string val val
  | CallGet val string "val list"
  | CallSelect val string "val list"

record Driver =
  NamedExec :: "call list \<Rightarrow> string \<Rightarrow> val \<Rightarrow> err option"
  PrepareNamed :: "call list \<Rightarrow> string \<Rightarrow> err option"
  StmtGet :: "call list \<Rightarrow> string \<Rightarrow> val \<Rightarrow> val \<Rightarrow> err + val"
  Get :: "call list \<Rightarrow> val \<Rightarrow> string \<Rightarrow> val list \<Rightarrow> err + val"
  Select :: "call list \<Rightarrow> val \<Rightarrow> string \<Rightarrow> val list \<Rightarrow> err + val list"
  Rebind :: "string \<Rightarrow> string"
  calls :: "call list"

definition driverNamedExec :: "Driver \<Rightarrow> string \<Rightarrow> val \<Rightarrow> err option \<times> Driver" where
  "driverNamedExec d query arg =
     (NamedExec d (calls d) query arg, d\<lparr>calls := calls d @ [CallNamedExec query arg]\<rparr>)"

definition driverPrepareNamed :: "Driver \<Rightarrow> string \<Rightarrow> err option \<times> Driver" where
  "driverPrepareNamed d query =
     (PrepareNamed d (calls d) query, d\<lparr>calls := calls d @ [CallPrepareNamed query]\<rparr>)"

definition stmtGet :: "Driver \<Rightarrow> string \<Rightarrow> val \<Rightarrow> val \<Rightarrow> (err + val) \<times> Driver" where
  "stmtGet d query dest arg =
     (StmtGet d (calls d) query dest arg, d\<lparr>calls := calls d @ [CallStmtGet query dest arg]\<rparr>)"

definition driverGet :: "Driver \<Rightarrow> val \<Rightarrow> string \<Rightarrow> val list \<Rightarrow> (err + val) \<times> Driver" where
  "driverGet d dest query args =
     (Get d (calls d) dest query args, d\<lparr>calls := calls d @ [CallGet dest query args]\<rparr>)"

definition driverSelect ::
  "Driver \<Rightarrow> val \<Rightarrow> string \<Rightarrow> val list \<Rightarrow> (err + val list) \<times> Driver" where
  "driverSelect d dest query args =
     (Select d (calls d) dest query args, d\<lparr>calls := calls d @ [CallSelect dest query args]\<rparr>)"

section \<open>Fields and schemas\<close>

text \<open>
  \<^verbatim>\<open>Tag\<close> is \<^verbatim>\<open>map[string]string\<close> and \<^verbatim>\<open>Tags\<close> is \<^verbatim>\<open>map[string]Tag\<close>; both are
  read only, so a list of entries read with \<open>map_of\<close> stands for each.
\<close>

type_synonym Tag = "(string \<times> string) list"
type_synonym Tags = "(string \<times> Tag) list"

definition TagGet :: "Tag \<Rightarrow> string \<Rightarrow> string" where
  "TagGet t key = (case map_of t key of None \<Rightarrow> [] | Some v \<Rightarrow> v)"

definition TagsGet :: "Tags \<Rightarrow> string \<Rightarrow> err + Tag" where
  "TagsGet t name = (case map_of t name of None \<Rightarrow> Inl (FieldError name) | Some tag \<Rightarrow> Inr tag)"

text \<open>
  The tag names are constants whose declaration is not among the sources; the struct
  tags of the test models (\<^verbatim>\<open>sqlxx:"primary_key:true; ignored:true"\<close>,
  \<^verbatim>\<open>sqlxx:"default:now()"\<close>) give their values.
\<close>

definition StructTagName :: string where "StructTagName = ''sqlxx''"
definition StructTagIgnored :: string where "StructTagIgnored = ''ignored''"
definition StructTagDefault :: string where "StructTagDefault = ''default''"

text \<open>
  The \<^verbatim>\<open>*ForeignKey\<close> of an association and the one its \<^verbatim>\<open>Reference\<close> points to.
  Their declaration is not among the sources: the records hold the members the preloader
  reads, and \<^verbatim>\<open>Reference\<close> is taken to be set wherever a \<^verbatim>\<open>ForeignKey\<close> is. A model
  (\<^verbatim>\<open>Model\<close>) is the value of an instance of it.
\<close>

record Reference =
  RefColumnName :: string
  RefModel :: val
  RefAssociationFieldName :: string

record ForeignKey =
  FieldName :: string
  AssociationFieldName :: string
  Model :: val
  Reference :: Reference

text \<open>
  \<^verbatim>\<open>Field\<close>: the members \<^verbatim>\<open>Save\<close> and the preloader read. The methods of \<^verbatim>\<open>Field\<close>
  that are not among the sources (\<^verbatim>\<open>IsAssociationTypeOne\<close>, \<^verbatim>\<open>PrimaryKeyFieldName\<close>,
  \<^verbatim>\<open>RelationFieldName\<close>, \<^verbatim>\<open>RelationColumnName\<close>, \<^verbatim>\<open>RelationPrimaryKeyFieldName\<close>,
  \<^verbatim>\<open>CreateAssociation\<close>) depend on the field only; each is a member holding what the
  method returns.
\<close>

record Field =
  Name :: string
  Tags :: Tags
  TableName :: string
  ColumnName :: string
  IsPrimary :: bool
  IsAssociation :: bool
  ForeignKey :: "ForeignKey option"
  DestinationField :: string
  IsAssociationTypeOne :: bool
  PrimaryKeyFieldName :: string
  RelationFieldName :: string
  RelationColumnName :: string
  RelationPrimaryKeyFieldName :: string
  CreateAssociation :: val

text \<open>
  \<^verbatim>\<open>Schema\<close>. \<^verbatim>\<open>Fields\<close> and \<^verbatim>\<open>Associations\<close> are Go maps from a name to a field.
  A \<^verbatim>\<open>range\<close> over a Go map visits the entries in an order the language leaves open:
  the list gives the entries in the order the run visits them. \<open>SchemaTableName\<close> is
  the member \<^verbatim>\<open>TableName\<close>; \<^verbatim>\<open>ColumnPaths\<close> and \<^verbatim>\<open>WhereColumnPaths\<close> are the
  results of the methods of these names.
\<close>

record Schema =
  SchemaTableName :: string
  PrimaryField :: Field
  Fields :: "(string \<times> Field) list"
  Associations :: "(string \<times> Field) list"
  ColumnPaths :: string
  WhereColumnPaths :: "(string \<times> val) list \<Rightarrow> string"

definition zeroField :: Field where
  "zeroField = \<lparr>Name = [], Tags = [], TableName = [], ColumnName = [], IsPrimary = False,
     IsAssociation = False, ForeignKey = None, DestinationField = [],
     IsAssociationTypeOne = False, PrimaryKeyFieldName = [], RelationFieldName = [],
     RelationColumnName = [], RelationPrimaryKeyFieldName = [], CreateAssociation = NilV\<rparr>"

section \<open>Query builder: Save, Delete, SoftDelete (queries.go)\<close>

text \<open>
  The loop of \<^verbatim>\<open>Save\<close> over \<^verbatim>\<open>schema.Fields\<close>, with its three accumulators
  \<^verbatim>\<open>columns\<close>, \<^verbatim>\<open>ignoredColumns\<close> and \<^verbatim>\<open>values\<close>.
\<close>

definition isIgnored :: "Field \<Rightarrow> bool" where
  "isIgnored column =
     (case TagsGet (Tags column) StructTagName of
        Inr tag \<Rightarrow> length (TagGet tag StructTagIgnored) \<noteq> 0
      | Inl e \<Rightarrow> False)"

definition defaultValue :: "Field \<Rightarrow> string" where
  "defaultValue column =
     (case TagsGet (Tags column) StructTagName of
        Inr tag \<Rightarrow> TagGet tag StructTagDefault
      | Inl e \<Rightarrow> [])"

definition hasDefault :: "Field \<Rightarrow> bool" where
  "hasDefault column = (length (defaultValue column) \<noteq> 0)"

fun saveColumns ::
  "Field list \<Rightarrow> string list \<times> string list \<times> string list
     \<Rightarrow> string list \<times> string list \<times> string list" where
  "saveColumns [] acc = acc"
| "saveColumns (column # rest) (columns, ignoredColumns, values) =
     (let ignoredColumns' =
            (if isIgnored column \<or> hasDefault column
             then ignoredColumns @ [ColumnName column] else ignoredColumns);
          columns' = (if \<not> isIgnored column then columns @ [ColumnName column] else columns);
          values' =
            (if \<not> isIgnored column
             then (if hasDefault column then values @ [defaultValue column]
                   else values @ ['':'' @ ColumnName column])
             else values)
      in saveColumns rest (columns', ignoredColumns', values'))"

text \<open>
  The statement \<^verbatim>\<open>Save\<close> builds, from the schema and whether the primary key is zero.
  \<^verbatim>\<open>updates\<close> pairs \<^verbatim>\<open>columns[i]\<close> with \<^verbatim>\<open>values[i]\<close>; the loop above appends to both
  lists together, so no index is out of range.
\<close>

definition saveQuery :: "Schema \<Rightarrow> bool \<Rightarrow> string" where
  "saveQuery schema pkIsZero =
     (case saveColumns (map snd (Fields schema)) ([], [], []) of
        (columns, ignoredColumns, values) \<Rightarrow>
          (let pkField = PrimaryField schema;
               query =
                 (if pkIsZero
                  then ''INSERT INTO '' @ SchemaTableName schema @ '' ('' @ Join columns '', ''
                         @ '') VALUES ('' @ Join values '', '' @ '')''
                  else (let updates = map (\<lambda>(c, v). c @ '' = '' @ v) (zip columns values);
                            wheres = [ColumnName pkField @ '' = :'' @ ColumnName pkField]
                        in ''UPDATE '' @ SchemaTableName schema @ '' SET '' @ Join updates '', ''
                             @ '' WHERE '' @ Join wheres '', ''))
           in if length ignoredColumns > 0
              then query @ '' RETURNING '' @ Join ignoredColumns '', ''
              else query))"

text \<open>
  \<^verbatim>\<open>Save(driver, out)\<close>. \<^verbatim>\<open>getSchemaFromInterface\<close> is not among the sources and is a
  parameter. The error of \<^verbatim>\<open>reflections.GetField\<close> is dropped by the source, which
  leaves \<^verbatim>\<open>pkValue\<close> at \<^verbatim>\<open>nil\<close>. The result is the error, the driver and \<^verbatim>\<open>out\<close>
  as the statement's \<^verbatim>\<open>Get\<close> left it.
\<close>

definition Save ::
  "(val \<Rightarrow> err + Schema) \<Rightarrow> Driver \<Rightarrow> val \<Rightarrow> err option \<times> Driver \<times> val" where
  "Save getSchemaFromInterface driver out =
     (case getSchemaFromInterface out of
        Inl e \<Rightarrow> (Some e, driver, out)
      | Inr schema \<Rightarrow>
          (let pkField = PrimaryField schema;
               pkValue = (case GetField out (Name pkField) of Inl e \<Rightarrow> NilV | Inr v \<Rightarrow> v)
           in case isZeroValue pkValue of
                Inl p \<Rightarrow> (Some p, driver, out)
              | Inr z \<Rightarrow>
                  (let query = saveQuery schema z
                   in case driverPrepareNamed driver query of
                        (Some e, driver') \<Rightarrow> (Some e, driver', out)
                      | (None, driver') \<Rightarrow>
                          (case stmtGet driver' query out out of
                             (Inl e, driver'') \<Rightarrow> (Some e, driver'', out)
                           | (Inr out', driver'') \<Rightarrow> (None, driver'', out')))))"

text \<open>
  \<^verbatim>\<open>Delete(driver, out)\<close>; the statement is executed with \<^verbatim>\<open>out\<close> as its argument.
\<close>

definition Delete ::
  "(val \<Rightarrow> err + Schema) \<Rightarrow> Driver \<Rightarrow> val \<Rightarrow> err option \<times> Driver \<times> val" where
  "Delete getSchemaFromInterface driver out =
     (case getSchemaFromInterface out of
        Inl e \<Rightarrow> (Some e, driver, out)
      | Inr schema \<Rightarrow>
          (let pkField = PrimaryField schema;
               pkValue = (case GetField out (Name pkField) of Inl e \<Rightarrow> NilV | Inr v \<Rightarrow> v)
           in case isZeroValue pkValue of
                Inl p \<Rightarrow> (Some p, driver, out)
              | Inr True \<Rightarrow> (Some NoPrimaryKey, driver, out)
              | Inr False \<Rightarrow>
                  (let wheres = [ColumnName pkField @ '' = :'' @ ColumnName pkField];
                       query = ''DELETE FROM '' @ SchemaTableName schema @ '' WHERE ''
                                 @ Join wheres '', ''
                   in case driverNamedExec driver query out of
                        (Some e, driver') \<Rightarrow> (Some e, driver', out)
                      | (None, driver') \<Rightarrow> (None, driver', out))))"

text \<open>
  \<^verbatim>\<open>SoftDelete(driver, out, fieldName)\<close>. \<open>now\<close> is what \<^verbatim>\<open>time.Now()\<close> returns.
  \<^verbatim>\<open>schema.Fields[fieldName]\<close> is the zero \<^verbatim>\<open>Field\<close> when the map has no such key. The
  argument of the statement is the map \<^verbatim>\<open>m\<close>, its second key written after the first.
\<close>

definition SoftDelete ::
  "(val \<Rightarrow> err + Schema) \<Rightarrow> val \<Rightarrow> Driver \<Rightarrow> val \<Rightarrow> string
     \<Rightarrow> err option \<times> Driver \<times> val" where
  "SoftDelete getSchemaFromInterface now driver out fieldName =
     (case getSchemaFromInterface out of
        Inl e \<Rightarrow> (Some e, driver, out)
      | Inr schema \<Rightarrow>
          (let pkField = PrimaryField schema;
               pkValue = (case GetField out (Name pkField) of Inl e \<Rightarrow> NilV | Inr v \<Rightarrow> v)
           in case isZeroValue pkValue of
                Inl p \<Rightarrow> (Some p, driver, out)
              | Inr True \<Rightarrow> (Some NoPrimaryKey, driver, out)
              | Inr False \<Rightarrow>
                  (let wheres = [ColumnName pkField @ '' = :'' @ ColumnName pkField];
                       field = (case map_of (Fields schema) fieldName of
                                  None \<Rightarrow> zeroField | Some f \<Rightarrow> f);
                       query = ''UPDATE '' @ SchemaTableName schema @ '' SET ''
                                 @ ColumnName field @ '' = :'' @ ColumnName field
                                 @ '' WHERE '' @ Join wheres '', '';
                       m = AList.update (ColumnName pkField) pkValue
                             (AList.update (ColumnName field) now [])
                   in case driverNamedExec driver query (StructV m) of
                        (Some e, driver') \<Rightarrow> (Some e, driver', out)
                      | (None, driver') \<Rightarrow> (None, driver', out))))"

section \<open>Preloader\<close>

text \<open>
  A record of one statement the preloader issued: \<^verbatim>\<open>Query{Field, Query, Args, Params,
  FetchOne}\<close>; \<open>QueryField\<close> is its member \<^verbatim>\<open>Field\<close> and \<open>QueryText\<close> its member
  \<^verbatim>\<open>Query\<close>. \<^verbatim>\<open>Queries\<close> is a list of them, \<^verbatim>\<open>nil\<close> being the empty list.
\<close>

record Query =
  QueryField :: Field
  QueryText :: string
  Args :: "val list"
  Params :: "(string \<times> val) list"
  FetchOne :: bool

text \<open>
  What the preloader takes from outside the sources at hand: \<open>getSchema\<close> is
  \<^verbatim>\<open>GetSchema\<close> in the version that returns a schema with fields as \<^verbatim>\<open>Associations\<close>
  (schema.go holds an earlier one), \<open>tableName\<close> the method \<^verbatim>\<open>TableName\<close> of a model,
  \<open>named\<close> is \<^verbatim>\<open>sqlx.Named\<close>, and \<open>rangeOrder\<close> gives the order in which a \<^verbatim>\<open>range\<close>
  of this run visits the keys of a map, from the keys in the order they were inserted.
\<close>

record Env =
  getSchema :: "val \<Rightarrow> err + Schema"
  tableName :: "val \<Rightarrow> string"
  named :: "string \<Rightarrow> (string \<times> val) list \<Rightarrow> err + string \<times> val list"
  rangeOrder :: "int list \<Rightarrow> int list"

type_synonym 'a preloaded = "Query list \<times> err option \<times> Driver \<times> 'a"

text \<open>
  The root \<^verbatim>\<open>out interface{}\<close> of a preload: a non-nil pointer, a nil pointer, or a
  value that is no pointer (\<^verbatim>\<open>nil\<close> among them).
  \<^verbatim>\<open>reflect.Indirect(reflect.ValueOf(out)).CanAddr()\<close> holds of the first only.
\<close>

datatype root = Pointer val | NilPointer | NoPointer val

fun CanAddr :: "root \<Rightarrow> bool" where
  "CanAddr (Pointer v) = True"
| "CanAddr NilPointer = False"
| "CanAddr (NoPointer v) = False"

text \<open>\<^verbatim>\<open>strings.Split(s, sep)\<close> for a separator of one character.\<close>

fun Split :: "string \<Rightarrow> char \<Rightarrow> string list" where
  "Split [] sep = [[]]"
| "Split (c # cs) sep =
     (if c = sep then [] # Split cs sep
      else (case Split cs sep of [] \<Rightarrow> [[c]] | w # ws \<Rightarrow> (c # w) # ws))"

text \<open>
  Modelled from the spec: the helpers \<^verbatim>\<open>IsSlice\<close>, \<^verbatim>\<open>GetFieldValue\<close>,
  \<^verbatim>\<open>SetFieldValue\<close>, \<^verbatim>\<open>Copy\<close>, \<^verbatim>\<open>GetInt64PrimaryKey\<close> and \<^verbatim>\<open>InInt64Slice\<close> are
  not among the sources. The specification has the preloader tell a single root from a
  slice, read a key scalar of an element, read and write a destination field, and
  collect distinct keys; each helper does what its name and its use in the preloader
  say, on the values of this model: a field that is missing, or a key that is no
  integer, is an error.
\<close>

definition IsSlice :: "val \<Rightarrow> bool" where
  "IsSlice v = (case v of SliceV xs \<Rightarrow> True | _ \<Rightarrow> False)"

definition GetFieldValue :: "val \<Rightarrow> string \<Rightarrow> err + val" where
  "GetFieldValue itf name = GetField itf name"

definition SetFieldValue :: "val \<Rightarrow> string \<Rightarrow> val \<Rightarrow> err + val" where
  "SetFieldValue itf name v =
     (case itf of
        StructV fs \<Rightarrow>
          (case map_of fs name of
             None \<Rightarrow> Inl (FieldError name)
           | Some old \<Rightarrow> Inr (StructV (AList.update name v fs)))
      | _ \<Rightarrow> Inl (FieldError name))"

definition Copy :: "val \<Rightarrow> val" where
  "Copy itf = itf"

definition GetInt64PrimaryKey :: "val \<Rightarrow> string \<Rightarrow> err + int" where
  "GetInt64PrimaryKey itf name =
     (case GetFieldValue itf name of
        Inl e \<Rightarrow> Inl e
      | Inr (IntV n) \<Rightarrow> Inr n
      | Inr v \<Rightarrow> Inl (FieldError name))"

definition InInt64Slice :: "int list \<Rightarrow> int \<Rightarrow> bool" where
  "InInt64Slice slice x = (x \<in> set slice)"

text \<open>\<^verbatim>\<open>whereQuery\<close> of queries.go.\<close>

definition whereQuery ::
  "Env \<Rightarrow> val \<Rightarrow> (string \<times> val) list \<Rightarrow> bool \<Rightarrow> err + string \<times> val list" where
  "whereQuery env model params fetchOne =
     (case getSchema env model of
        Inl e \<Rightarrow> Inl e
      | Inr schema \<Rightarrow>
          (let q = ''SELECT '' @ ColumnPaths schema @ '' FROM '' @ tableName env model
                     @ '' WHERE '' @ WhereColumnPaths schema params;
               q' = (if fetchOne then q @ '' LIMIT 1'' else q)
           in named env q' params))"

text \<open>
  Modelled from the spec: \<^verbatim>\<open>FindByParamsWithQueries\<close> is not among the sources. It is
  \<^verbatim>\<open>where\<close> of queries.go for the multi-row form (the statement of \<^verbatim>\<open>whereQuery\<close>,
  rebound, fetched with \<^verbatim>\<open>Select\<close>), returning with the error the record of the one
  statement it issues, as the specification has every issued statement recorded. The
  model of the rows, which the source reads off the type of \<open>out\<close>, is an argument. The
  last component is the rows fetched into \<open>out\<close>, which the callers pass empty.
\<close>

definition FindByParamsWithQueries ::
  "Env \<Rightarrow> Driver \<Rightarrow> val \<Rightarrow> val \<Rightarrow> (string \<times> val) list \<Rightarrow> val list preloaded" where
  "FindByParamsWithQueries env driver model out params =
     (case whereQuery env model params False of
        Inl e \<Rightarrow> ([], Some e, driver, [])
      | Inr (query, args) \<Rightarrow>
          (let queries = [\<lparr>QueryField = zeroField, QueryText = query, Args = args,
                            Params = params, FetchOne = False\<rparr>]
           in case driverSelect driver out (Rebind driver query) args of
                (Inl e, driver') \<Rightarrow> (queries, Some e, driver', [])
              | (Inr rows, driver') \<Rightarrow> (queries, None, driver', rows)))"

subsection \<open>Single instance preload\<close>

definition checkAssociation :: "Field \<Rightarrow> err option" where
  "checkAssociation field =
     (if \<not> IsAssociation field then Some (NotAnAssociation (Name field))
      else if ForeignKey field = None then Some (NoForeignKey (Name field))
      else None)"

text \<open>
  \<^verbatim>\<open>preloadSingleOne\<close>. After \<^verbatim>\<open>checkAssociation\<close> the pointer \<^verbatim>\<open>field.ForeignKey\<close>
  is set; the branch for \<open>None\<close> is there for totality.
\<close>

definition preloadSingleOne :: "Env \<Rightarrow> Driver \<Rightarrow> val \<Rightarrow> Field \<Rightarrow> val preloaded" where
  "preloadSingleOne env driver out field =
     (case checkAssociation field of
        Some e \<Rightarrow> ([], Some e, driver, out)
      | None \<Rightarrow>
     (case ForeignKey field of
        None \<Rightarrow> ([], Some (GoPanic ''nil pointer dereference''), driver, out)
      | Some fkey \<Rightarrow>
     (case GetInt64PrimaryKey out (FieldName fkey) of
        Inl e \<Rightarrow> ([], Some e, driver, out)
      | Inr fk \<Rightarrow>
          if fk = 0 then ([], None, driver, out)
          else
            (let params = [(RefColumnName (Reference fkey), IntV fk)]
             in case whereQuery env (RefModel (Reference fkey)) params
                       (IsAssociationTypeOne field) of
                  Inl e \<Rightarrow> ([], Some e, driver, out)
                | Inr (query, args) \<Rightarrow>
                    (let q = \<lparr>QueryField = field, QueryText = query, Args = args,
                               Params = params, FetchOne = IsAssociationTypeOne field\<rparr>;
                         queries = [q];
                         relation = CreateAssociation field
                     in case driverGet driver relation (Rebind driver (QueryText q)) (Args q) of
                          (Inl e, driver') \<Rightarrow> (queries, Some e, driver', out)
                        | (Inr relation', driver') \<Rightarrow>
                            (case SetFieldValue out (AssociationFieldName fkey) relation' of
                               Inl e \<Rightarrow> (queries, Some e, driver', out)
                             | Inr out' \<Rightarrow> (queries, None, driver', out')))))))"

text \<open>
  \<^verbatim>\<open>preloadSingleMany\<close>. It reads \<^verbatim>\<open>field.ForeignKey.Model\<close> without a check, which
  panics on a nil \<^verbatim>\<open>ForeignKey\<close>.
\<close>

definition preloadSingleMany :: "Env \<Rightarrow> Driver \<Rightarrow> val \<Rightarrow> Field \<Rightarrow> val preloaded" where
  "preloadSingleMany env driver out field =
     (case GetInt64PrimaryKey out (PrimaryKeyFieldName field) of
        Inl e \<Rightarrow> ([], Some e, driver, out)
      | Inr fk \<Rightarrow>
          if fk = 0 then ([], None, driver, out)
          else
            (case ForeignKey field of
               None \<Rightarrow> ([], Some (GoPanic ''nil pointer dereference''), driver, out)
             | Some fkey \<Rightarrow>
                 (case FindByParamsWithQueries env driver (Model fkey) (SliceV [])
                         [(RelationColumnName field, IntV fk)] of
                    (q, Some e, driver', rows) \<Rightarrow> (q, Some e, driver', out)
                  | (q, None, driver', rows) \<Rightarrow>
                      (case SetFieldValue out (RefAssociationFieldName (Reference fkey))
                              (SliceV rows) of
                         Inl e \<Rightarrow> (q, Some e, driver', out)
                       | Inr out' \<Rightarrow> (q, None, driver', out')))))"

text \<open>
  \<^verbatim>\<open>preloadSingle\<close>: the loop over \<^verbatim>\<open>fields\<close>, with \<open>queries\<close> the statements recorded so
  far. For a level above one only to-one associations are preloaded, on a copy of the
  value of the destination field, which is then written back.
\<close>

fun preloadSingle ::
  "Env \<Rightarrow> Driver \<Rightarrow> val \<Rightarrow> nat \<Rightarrow> Field list \<Rightarrow> Query list \<Rightarrow> val preloaded" where
  "preloadSingle env driver out level [] queries = (queries, None, driver, out)"
| "preloadSingle env driver out level (field # rest) queries =
     (if level > 1 then
        (case GetFieldValue out (DestinationField field) of
           Inl e \<Rightarrow> (queries, Some e, driver, out)
         | Inr relation \<Rightarrow>
             (let relationOut = Copy relation
              in if IsAssociationTypeOne field then
                   (case preloadSingleOne env driver relationOut field of
                      (q, Some e, driver', relationOut') \<Rightarrow> (queries @ q, Some e, driver', out)
                    | (q, None, driver', relationOut') \<Rightarrow>
                        (case SetFieldValue out (DestinationField field) relationOut' of
                           Inl e \<Rightarrow> (queries @ q, Some e, driver', out)
                         | Inr out' \<Rightarrow>
                             preloadSingle env driver' out' level rest (queries @ q)))
                 else
                   (case SetFieldValue out (DestinationField field) relationOut of
                      Inl e \<Rightarrow> (queries, Some e, driver, out)
                    | Inr out' \<Rightarrow> preloadSingle env driver out' level rest queries)))
      else if IsAssociationTypeOne field then
        (case preloadSingleOne env driver out field of
           (q, Some e, driver', out') \<Rightarrow> (queries @ q, Some e, driver', out')
         | (q, None, driver', out') \<Rightarrow>
             preloadSingle env driver' out' level rest (queries @ q))
      else
        (case preloadSingleMany env driver out field of
           (q, Some e, driver', out') \<Rightarrow> (queries @ q, Some e, driver', out')
         | (q, None, driver', out') \<Rightarrow>
             preloadSingle env driver' out' level rest (queries @ q)))"

subsection \<open>Slice of instances preload\<close>

text \<open>
  The slice functions work on the elements of the slice. The source reaches an element
  through a pointer to it (\<^verbatim>\<open>slc.Index(i).Addr()\<close>) and keeps such pointers in maps; the
  model keeps the index of the element instead, and a write through the pointer is an
  update of the list at that index. A Go map with integer keys is the list of its entries
  in the order their keys were first inserted.

  The first loop of \<^verbatim>\<open>preloadSliceOne\<close>: \<open>i\<close> is the index of the next element,
  \<open>foreignKeys\<close> the keys collected so far, \<open>mapping\<close> the map \<^verbatim>\<open>pk -> fk -> instance\<close>.
\<close>

fun sliceOneKeys ::
  "Field \<Rightarrow> val list \<Rightarrow> nat \<Rightarrow> int list \<Rightarrow> (int \<times> (int \<times> nat) list) list
     \<Rightarrow> err + int list \<times> (int \<times> (int \<times> nat) list) list" where
  "sliceOneKeys field [] i foreignKeys mapping = Inr (foreignKeys, mapping)"
| "sliceOneKeys field (inst # rest) i foreignKeys mapping =
     (case GetInt64PrimaryKey inst (PrimaryKeyFieldName field) of
        Inl e \<Rightarrow> Inl e
      | Inr pk \<Rightarrow>
          (case GetInt64PrimaryKey inst (RelationFieldName field) of
             Inl e \<Rightarrow> Inl e
           | Inr fk \<Rightarrow>
               (let foreignKeys' =
                      (if fk \<noteq> 0 \<and> \<not> InInt64Slice foreignKeys fk
                       then foreignKeys @ [fk] else foreignKeys);
                    fkMap = (case map_of mapping pk of None \<Rightarrow> [] | Some m \<Rightarrow> m);
                    mapping' = AList.update pk (AList.update fk i fkMap) mapping
                in sliceOneKeys field rest (Suc i) foreignKeys' mapping')))"

text \<open>
  The last loops of \<^verbatim>\<open>preloadSliceOne\<close>: for one \<open>fkMap\<close>, every fetched relation whose
  primary key is a key of \<open>fkMap\<close> is written to the instance found there; then the same
  for every \<open>fkMap\<close> of the mapping, in the order the \<^verbatim>\<open>range\<close> visits them.
\<close>

fun setRelations ::
  "Field \<Rightarrow> ForeignKey \<Rightarrow> (int \<times> nat) list \<Rightarrow> val list \<Rightarrow> val list
     \<Rightarrow> err option \<times> val list" where
  "setRelations field fkey fkMap [] slc = (None, slc)"
| "setRelations field fkey fkMap (relation # rest) slc =
     (case GetInt64PrimaryKey relation (RelationPrimaryKeyFieldName field) of
        Inl e \<Rightarrow> (Some e, slc)
      | Inr relationPK \<Rightarrow>
          (case map_of fkMap relationPK of
             None \<Rightarrow> setRelations field fkey fkMap rest slc
           | Some idx \<Rightarrow>
               (case SetFieldValue (slc ! idx) (AssociationFieldName fkey) relation of
                  Inl e \<Rightarrow> (Some e, slc)
                | Inr inst' \<Rightarrow> setRelations field fkey fkMap rest (slc[idx := inst']))))"

fun setAllRelations ::
  "Field \<Rightarrow> ForeignKey \<Rightarrow> (int \<times> nat) list list \<Rightarrow> val list \<Rightarrow> val list
     \<Rightarrow> err option \<times> val list" where
  "setAllRelations field fkey [] relations slc = (None, slc)"
| "setAllRelations field fkey (fkMap # rest) relations slc =
     (case setRelations field fkey fkMap relations slc of
        (Some e, slc') \<Rightarrow> (Some e, slc')
      | (None, slc') \<Rightarrow> setAllRelations field fkey rest relations slc')"

definition rangeValues :: "Env \<Rightarrow> (int \<times> 'a list) list \<Rightarrow> 'a list list" where
  "rangeValues env m =
     map (\<lambda>k. case map_of m k of None \<Rightarrow> [] | Some v \<Rightarrow> v) (rangeOrder env (map fst m))"

text \<open>
  \<^verbatim>\<open>preloadSliceOne\<close>. Its argument is a slice or a pointer to one; either way \<open>slc\<close>
  is the elements. \<^verbatim>\<open>field.ForeignKey\<close> is first dereferenced after the first loop.
  The one statement is issued by \<^verbatim>\<open>FindByParamsWithQueries\<close>, with the collected keys
  as the value of the parameter.
\<close>

definition preloadSliceOne :: "Env \<Rightarrow> Driver \<Rightarrow> val list \<Rightarrow> Field \<Rightarrow> val list preloaded" where
  "preloadSliceOne env driver slc field =
     (case sliceOneKeys field slc 0 [] [] of
        Inl e \<Rightarrow> ([], Some e, driver, slc)
      | Inr (foreignKeys, mapping) \<Rightarrow>
          (case ForeignKey field of
             None \<Rightarrow> ([], Some (GoPanic ''nil pointer dereference''), driver, slc)
           | Some fkey \<Rightarrow>
               (case FindByParamsWithQueries env driver (RefModel (Reference fkey)) (SliceV [])
                       [(RelationColumnName field, SliceV (map IntV foreignKeys))] of
                  (q, Some e, driver', rows) \<Rightarrow> (q, Some e, driver', slc)
                | (q, None, driver', relations) \<Rightarrow>
                    (case setAllRelations field fkey (rangeValues env mapping) relations slc of
                       (e, slc') \<Rightarrow> (q, e, driver', slc')))))"

text \<open>
  The first loop of \<^verbatim>\<open>preloadSliceMany\<close>: the keys are the primary keys of the
  instances, and \<open>mapping\<close> keeps for each key the instance that brought it first.
\<close>

fun sliceManyKeys ::
  "Field \<Rightarrow> val list \<Rightarrow> nat \<Rightarrow> int list \<Rightarrow> (int \<times> nat) list
     \<Rightarrow> err + int list \<times> (int \<times> nat) list" where
  "sliceManyKeys field [] i foreignKeys mapping = Inr (foreignKeys, mapping)"
| "sliceManyKeys field (inst # rest) i foreignKeys mapping =
     (case GetInt64PrimaryKey inst (PrimaryKeyFieldName field) of
        Inl e \<Rightarrow> Inl e
      | Inr fk \<Rightarrow>
          (if fk \<noteq> 0 \<and> \<not> InInt64Slice foreignKeys fk
           then sliceManyKeys field rest (Suc i) (foreignKeys @ [fk]) (AList.update fk i mapping)
           else sliceManyKeys field rest (Suc i) foreignKeys mapping))"

text \<open>
  The grouping loops of \<^verbatim>\<open>preloadSliceMany\<close>: \<open>instancesRelations\<close> gets, for one
  \<open>instancePK\<close> and then for each in the order of the \<^verbatim>\<open>range\<close>, the fetched relations
  whose foreign key is \<open>instancePK\<close>.
\<close>

fun matchRelations ::
  "ForeignKey \<Rightarrow> int \<Rightarrow> val list \<Rightarrow> (int \<times> val list) list \<Rightarrow> err + (int \<times> val list) list" where
  "matchRelations fkey instancePK [] instancesRelations = Inr instancesRelations"
| "matchRelations fkey instancePK (relation # rest) instancesRelations =
     (case GetInt64PrimaryKey relation (FieldName fkey) of
        Inl e \<Rightarrow> Inl e
      | Inr fk \<Rightarrow>
          (if fk = instancePK
           then matchRelations fkey instancePK rest
                  (AList.update instancePK
                     ((case map_of instancesRelations instancePK of None \<Rightarrow> [] | Some rs \<Rightarrow> rs)
                        @ [relation])
                     instancesRelations)
           else matchRelations fkey instancePK rest instancesRelations))"

fun groupRelations ::
  "ForeignKey \<Rightarrow> int list \<Rightarrow> val list \<Rightarrow> (int \<times> val list) list \<Rightarrow> err + (int \<times> val list) list" where
  "groupRelations fkey [] relations instancesRelations = Inr instancesRelations"
| "groupRelations fkey (instancePK # rest) relations instancesRelations =
     (case matchRelations fkey instancePK relations instancesRelations of
        Inl e \<Rightarrow> Inl e
      | Inr instancesRelations' \<Rightarrow> groupRelations fkey rest relations instancesRelations')"

text \<open>
  The last loop of \<^verbatim>\<open>preloadSliceMany\<close>. The source builds the slice to assign with
  \<^verbatim>\<open>reflect.Append(slc, relationValue.Elem())\<close> and drops what \<^verbatim>\<open>Append\<close> returns, so
  the slice it assigns is the empty one it made. A key with no instance in \<open>mapping\<close>
  would give the zero \<^verbatim>\<open>reflect.Value\<close>, whose \<^verbatim>\<open>Interface()\<close> panics.
\<close>

fun setGroups ::
  "ForeignKey \<Rightarrow> (int \<times> nat) list \<Rightarrow> int list \<Rightarrow> val list \<Rightarrow> err option \<times> val list" where
  "setGroups fkey mapping [] slc = (None, slc)"
| "setGroups fkey mapping (instancePK # rest) slc =
     (case map_of mapping instancePK of
        None \<Rightarrow> (Some (GoPanic ''reflect: call of reflect.Value.Interface on zero Value''), slc)
      | Some idx \<Rightarrow>
          (case SetFieldValue (slc ! idx) (RefAssociationFieldName (Reference fkey)) (SliceV []) of
             Inl e \<Rightarrow> (Some e, slc)
           | Inr inst' \<Rightarrow> setGroups fkey mapping rest (slc[idx := inst'])))"

text \<open>
  \<^verbatim>\<open>preloadSliceMany\<close>. It takes \<^verbatim>\<open>reflect.ValueOf(out).Elem()\<close>, which panics unless
  \<open>out\<close> is a pointer (\<open>isPointer\<close>); \<open>slc\<close> is the elements of the slice.
\<close>

definition preloadSliceMany ::
  "Env \<Rightarrow> Driver \<Rightarrow> bool \<Rightarrow> val list \<Rightarrow> Field \<Rightarrow> val list preloaded" where
  "preloadSliceMany env driver isPointer slc field =
     (if \<not> isPointer
      then ([], Some (GoPanic ''reflect: call of reflect.Value.Elem on slice Value''), driver, slc)
      else
     (case sliceManyKeys field slc 0 [] [] of
        Inl e \<Rightarrow> ([], Some e, driver, slc)
      | Inr (foreignKeys, mapping) \<Rightarrow>
          (case ForeignKey field of
             None \<Rightarrow> ([], Some (GoPanic ''nil pointer dereference''), driver, slc)
           | Some fkey \<Rightarrow>
               (case FindByParamsWithQueries env driver (Model fkey) (SliceV [])
                       [(RelationColumnName field, SliceV (map IntV foreignKeys))] of
                  (q, Some e, driver', rows) \<Rightarrow> (q, Some e, driver', slc)
                | (q, None, driver', relations) \<Rightarrow>
                    (case groupRelations fkey (rangeOrder env (map fst mapping)) relations [] of
                       Inl e \<Rightarrow> (q, Some e, driver', slc)
                     | Inr instancesRelations \<Rightarrow>
                         (case setGroups fkey mapping
                                 (rangeOrder env (map fst instancesRelations)) slc of
                            (e, slc') \<Rightarrow> (q, e, driver', slc')))))))"

text \<open>
  The loops of \<^verbatim>\<open>preloadSlice\<close> for a level above one. The first collects a copy of the
  value of the destination field of every instance (\<open>relations\<close>) and, by primary key,
  the places of these copies (\<open>mapping\<close>). The last writes to every instance the first
  copy recorded for its primary key, for a to-one association.
\<close>

fun buildRelations ::
  "Field \<Rightarrow> val list \<Rightarrow> (int \<times> nat list) list \<Rightarrow> val list
     \<Rightarrow> err + (int \<times> nat list) list \<times> val list" where
  "buildRelations field [] mapping relations = Inr (mapping, relations)"
| "buildRelations field (inst # rest) mapping relations =
     (case GetInt64PrimaryKey inst (PrimaryKeyFieldName field) of
        Inl e \<Rightarrow> Inl e
      | Inr pk \<Rightarrow>
          (case GetFieldValue inst (DestinationField field) of
             Inl e \<Rightarrow> Inl e
           | Inr relation \<Rightarrow>
               (let relationOut = Copy relation;
                    places = (case map_of mapping pk of None \<Rightarrow> [] | Some ps \<Rightarrow> ps)
                in buildRelations field rest
                     (AList.update pk (places @ [length relations]) mapping)
                     (relations @ [relationOut]))))"

fun setBack ::
  "Field \<Rightarrow> (int \<times> nat list) list \<Rightarrow> val list \<Rightarrow> val list \<Rightarrow> val list
     \<Rightarrow> err option \<times> val list" where
  "setBack field mapping relations done [] = (None, done)"
| "setBack field mapping relations done (inst # rest) =
     (case GetInt64PrimaryKey inst (PrimaryKeyFieldName field) of
        Inl e \<Rightarrow> (Some e, done @ inst # rest)
      | Inr pk \<Rightarrow>
          (let instanceRelations = (case map_of mapping pk of None \<Rightarrow> [] | Some ps \<Rightarrow> ps)
           in if IsAssociationTypeOne field \<and> length instanceRelations > 0
              then (case SetFieldValue inst (DestinationField field)
                           (relations ! hd instanceRelations) of
                      Inl e \<Rightarrow> (Some e, done @ inst # rest)
                    | Inr inst' \<Rightarrow> setBack field mapping relations (done @ [inst']) rest)
              else setBack field mapping relations (done @ [inst]) rest))"

text \<open>
  \<^verbatim>\<open>preloadSlice\<close>: the loop over \<^verbatim>\<open>fields\<close>; \<open>slc\<close> is the elements of the slice the
  root points to. For a level above one the slice functions get the slice
  \<^verbatim>\<open>relations\<close> itself, not a pointer to it.
\<close>

fun preloadSlice ::
  "Env \<Rightarrow> Driver \<Rightarrow> val list \<Rightarrow> nat \<Rightarrow> Field list \<Rightarrow> Query list \<Rightarrow> val list preloaded" where
  "preloadSlice env driver slc level [] queries = (queries, None, driver, slc)"
| "preloadSlice env driver slc level (field # rest) queries =
     (if level > 1 then
        (case buildRelations field slc [] [] of
           Inl e \<Rightarrow> (queries, Some e, driver, slc)
         | Inr (mapping, relations) \<Rightarrow>
             (case (if IsAssociationTypeOne field
                    then preloadSliceOne env driver relations field
                    else preloadSliceMany env driver False relations field) of
                (q, Some e, driver', relations') \<Rightarrow> (queries @ q, Some e, driver', slc)
              | (q, None, driver', relations') \<Rightarrow>
                  (case setBack field mapping relations' [] slc of
                     (Some e, slc') \<Rightarrow> (queries @ q, Some e, driver', slc')
                   | (None, slc') \<Rightarrow>
                       preloadSlice env driver' slc' level rest (queries @ q))))
      else
        (case (if IsAssociationTypeOne field
               then preloadSliceOne env driver slc field
               else preloadSliceMany env driver True slc field) of
           (q, Some e, driver', slc') \<Rightarrow> (queries @ q, Some e, driver', slc')
         | (q, None, driver', slc') \<Rightarrow>
             preloadSlice env driver' slc' level rest (queries @ q)))"

subsection \<open>preload\<close>

text \<open>
  The first loop of \<^verbatim>\<open>preload\<close>: each path is looked up, whole, in
  \<^verbatim>\<open>schema.Associations\<close>; the first path that is not a key ends the call with an
  error. \<open>mapping\<close> is the map from a level to the fields of that level.
\<close>

fun resolvePaths ::
  "Schema \<Rightarrow> string list \<Rightarrow> (nat \<times> Field list) list \<Rightarrow> err + (nat \<times> Field list) list" where
  "resolvePaths schema [] mapping = Inr mapping"
| "resolvePaths schema (path # paths) mapping =
     (case map_of (Associations schema) path of
        None \<Rightarrow> Inl (NotValidAssociation path)
      | Some field \<Rightarrow>
          (let splits = Split path CHR ''.'';
               level = length splits;
               levelFields = (case map_of mapping level of None \<Rightarrow> [] | Some fs \<Rightarrow> fs);
               field' = field\<lparr>DestinationField := hd splits\<rparr>
           in resolvePaths schema paths (AList.update level (levelFields @ [field']) mapping)))"

text \<open>
  The second loop of \<^verbatim>\<open>preload\<close>, over the sorted levels. \<open>out\<close> is the value the root
  points to and \<open>isSlice\<close> what \<^verbatim>\<open>IsSlice(out)\<close> gave before the loops; \<open>elements\<close> is
  the elements of that value when it is a slice.
\<close>

definition elements :: "val \<Rightarrow> val list" where
  "elements v = (case v of SliceV xs \<Rightarrow> xs | _ \<Rightarrow> [])"

fun preloadLevels ::
  "Env \<Rightarrow> Driver \<Rightarrow> val \<Rightarrow> bool \<Rightarrow> (nat \<times> Field list) list \<Rightarrow> nat list \<Rightarrow> Query list
     \<Rightarrow> val preloaded" where
  "preloadLevels env driver out isSlice mapping [] queries = (queries, None, driver, out)"
| "preloadLevels env driver out isSlice mapping (level # levels) queries =
     (let levelFields = (case map_of mapping level of None \<Rightarrow> [] | Some fs \<Rightarrow> fs)
      in case (if \<not> isSlice
               then preloadSingle env driver out level levelFields []
               else (case preloadSlice env driver (elements out) level levelFields [] of
                       (q, e, driver', slc') \<Rightarrow> (q, e, driver', SliceV slc'))) of
           (q, Some e, driver', out') \<Rightarrow> (queries @ q, Some e, driver', out')
         | (q, None, driver', out') \<Rightarrow>
             preloadLevels env driver' out' isSlice mapping levels (queries @ q))"

text \<open>
  \<^verbatim>\<open>preload(driver, out, paths...)\<close>. The result is the recorded statements, the error,
  the driver and the root as the preload left it.
\<close>

definition preload :: "Env \<Rightarrow> Driver \<Rightarrow> root \<Rightarrow> string list \<Rightarrow> root preloaded" where
  "preload env driver out paths =
     (if \<not> CanAddr out then ([], Some NotAddressable, driver, out)
      else
     (case out of
        Pointer v \<Rightarrow>
          (case getSchema env v of
             Inl e \<Rightarrow> ([], Some e, driver, out)
           | Inr schema \<Rightarrow>
               (let isSlice = IsSlice v
                in case resolvePaths schema paths [] of
                     Inl e \<Rightarrow> ([], Some e, driver, out)
                   | Inr mapping \<Rightarrow>
                       (case preloadLevels env driver v isSlice mapping
                               (sort (map fst mapping)) [] of
                          (queries, e, driver', v') \<Rightarrow> (queries, e, driver', Pointer v'))))
      | _ \<Rightarrow> ([], Some NotAddressable, driver, out)))"

section \<open>Schema introspection (schema.go)\<close>

text \<open>
  schema.go reads a model by reflection. What reflection finds there is the description
  of the model's type: the table name its method \<^verbatim>\<open>TableName\<close> returns and, when the
  model is a struct, its exported fields in order, each with its name, its kind
  (\<^verbatim>\<open>reflections.GetFieldKind\<close>), its tags under \<^verbatim>\<open>SQLXStructTagName\<close> and under
  \<^verbatim>\<open>StructTagName\<close>, and, when the value of the field implements \<^verbatim>\<open>Model\<close>, the table
  name of that model (\<open>None\<close> when it does not implement \<^verbatim>\<open>Model\<close>).
\<close>

datatype kind = KStruct | KPtr | KSlice | KInt | KString | KBool

record StructField =
  sfName :: string
  sfKind :: kind
  sfDbTag :: string
  sfTag :: string
  sfModel :: "string option"

record ModelType =
  mTableName :: string
  mFields :: "StructField list option"

text \<open>
  \<^verbatim>\<open>Column\<close>, \<^verbatim>\<open>RelatedField\<close> and \<^verbatim>\<open>Schema\<close> as schema.go declares them;
  \<open>ColumnTableName\<close> and \<open>ColumnName'\<close> are the members \<^verbatim>\<open>TableName\<close> and \<^verbatim>\<open>Name\<close> of
  \<^verbatim>\<open>Column\<close>, and \<open>ColumnSchema\<close>, with \<open>Columns\<close> and \<open>RelatedFields\<close>, is this
  file's \<^verbatim>\<open>Schema\<close> with its maps \<^verbatim>\<open>Columns\<close> and \<^verbatim>\<open>Associations\<close>.
\<close>

record Column =
  ColumnTableName :: string
  ColumnName' :: string
  PrefixedName :: string

record RelatedField =
  FK :: Column
  FKReference :: Column

record ColumnSchema =
  Columns :: "(string \<times> Column) list"
  RelatedFields :: "(string \<times> RelatedField) list"

text \<open>
  \<^verbatim>\<open>newColumn(model, field, tag, isRelated, isReference)\<close>; of the model it uses the
  table name only. \<^verbatim>\<open>toSnakeCase\<close> is not among the sources and is a parameter.
\<close>

definition newColumn ::
  "(string \<Rightarrow> string) \<Rightarrow> string \<Rightarrow> string \<Rightarrow> string \<Rightarrow> bool \<Rightarrow> bool \<Rightarrow> err + Column" where
  "newColumn toSnakeCase table field tag isRelated isReference =
     (let hasTag = length tag > 0;
          column = (if \<not> hasTag then toSnakeCase field else tag)
      in if \<not> isRelated
         then Inr \<lparr>ColumnTableName = table, ColumnName' = column,
                    PrefixedName = table @ ''.'' @ column\<rparr>
         else if isReference
         then (let column' = (if hasTag then tag else ''id'')
               in Inr \<lparr>ColumnTableName = table, ColumnName' = column',
                         PrefixedName = table @ ''.'' @ column'\<rparr>)
         else (let column' = (if hasTag then tag else column @ ''_id'')
               in Inr \<lparr>ColumnTableName = table, ColumnName' = column',
                         PrefixedName = table @ ''.'' @ column'\<rparr>))"

text \<open>
  \<^verbatim>\<open>newRelatedField(model, field)\<close>. The three reflection reads cannot fail on a field
  that \<^verbatim>\<open>reflections.Fields\<close> listed. \<^verbatim>\<open>related := relatedValue.(Model)\<close> is a type
  assertion in its one-result form: it panics when the value does not implement
  \<^verbatim>\<open>Model\<close>.
\<close>

definition newRelatedField ::
  "(string \<Rightarrow> string) \<Rightarrow> ModelType \<Rightarrow> StructField \<Rightarrow> err + RelatedField" where
  "newRelatedField toSnakeCase model sf =
     (case sfModel sf of
        None \<Rightarrow> Inl (GoPanic ''interface conversion: interface is not Model: missing method TableName'')
      | Some related \<Rightarrow>
          (case newColumn toSnakeCase (mTableName model) (sfName sf) (sfDbTag sf) True False of
             Inl e \<Rightarrow> Inl e
           | Inr fk \<Rightarrow>
               (case newColumn toSnakeCase related (sfName sf) (sfTag sf) True True of
                  Inl e \<Rightarrow> Inl e
                | Inr ref \<Rightarrow> Inr \<lparr>FK = fk, FKReference = ref\<rparr>)))"

text \<open>The loop of \<^verbatim>\<open>GetSchema\<close> over the fields, and \<^verbatim>\<open>GetSchema\<close>.\<close>

fun schemaFields ::
  "(string \<Rightarrow> string) \<Rightarrow> ModelType \<Rightarrow> StructField list \<Rightarrow> ColumnSchema \<Rightarrow> err + ColumnSchema" where
  "schemaFields toSnakeCase model [] schema = Inr schema"
| "schemaFields toSnakeCase model (sf # rest) schema =
     (if sfKind sf = KStruct \<or> sfKind sf = KPtr then
        (case newRelatedField toSnakeCase model sf of
           Inl e \<Rightarrow> Inl e
         | Inr relatedField \<Rightarrow>
             schemaFields toSnakeCase model rest
               (schema\<lparr>RelatedFields := AList.update (sfName sf) relatedField (RelatedFields schema)\<rparr>))
      else
        (case newColumn toSnakeCase (mTableName model) (sfName sf) (sfDbTag sf) False False of
           Inl e \<Rightarrow> Inl e
         | Inr col \<Rightarrow>
             schemaFields toSnakeCase model rest
               (schema\<lparr>Columns := AList.update (sfName sf) col (Columns schema)\<rparr>)))"

definition GetSchema :: "(string \<Rightarrow> string) \<Rightarrow> ModelType \<Rightarrow> err + ColumnSchema" where
  "GetSchema toSnakeCase model =
     (case mFields model of
        None \<Rightarrow> Inl (FieldError ''Cannot use GetField on a non-struct interface'')
      | Some fs \<Rightarrow> schemaFields toSnakeCase model fs \<lparr>Columns = [], RelatedFields = []\<rparr>)"

section \<open>Example entities and an example driver\<close>

text \<open>
  The entity of the specification's example: table \<open>t\<close>, columns \<open>a\<close> and \<open>b\<close>, and the
  primary key \<open>c\<close>, marked ignored as the \<^verbatim>\<open>ID\<close> fields of the test models are. The
  second schema has a column with a default expression, as \<^verbatim>\<open>UpdatedAt\<close> of the test
  model \<^verbatim>\<open>User\<close> has.
\<close>

definition exField :: "string \<Rightarrow> string \<Rightarrow> Tags \<Rightarrow> Field" where
  "exField n c t = zeroField\<lparr>Name := n, Tags := t, TableName := ''t'', ColumnName := c\<rparr>"

definition exKeyField :: Field where
  "exKeyField =
     exField ''C'' ''c'' [(''sqlxx'', [(''primary_key'', ''true''), (''ignored'', ''true'')])]"

definition exSchema :: Schema where
  "exSchema = \<lparr>SchemaTableName = ''t'', PrimaryField = exKeyField,
     Fields = [(''A'', exField ''A'' ''a'' []),
               (''B'', exField ''B'' ''b'' [(''db'', [(''field'', ''b'')])]),
               (''C'', exKeyField)],
     Associations = [], ColumnPaths = ''t.a, t.b, t.c'', WhereColumnPaths = (\<lambda>p. [])\<rparr>"

definition exSchemaDefault :: Schema where
  "exSchemaDefault = \<lparr>SchemaTableName = ''t'', PrimaryField = exKeyField,
     Fields = [(''A'', exField ''A'' ''a'' []),
               (''U'', exField ''U'' ''u'' [(''sqlxx'', [(''default'', ''now()'')])]),
               (''C'', exKeyField)],
     Associations = [], ColumnPaths = ''t.a, t.u, t.c'', WhereColumnPaths = (\<lambda>p. [])\<rparr>"

definition exOut :: "int \<Rightarrow> val" where
  "exOut k = StructV [(''A'', IntV 1), (''B'', IntV 2), (''C'', IntV k)]"

text \<open>A driver on which every statement succeeds and every fetch finds nothing.\<close>

definition okDriver :: Driver where
  "okDriver = \<lparr>NamedExec = (\<lambda>h q a. None), PrepareNamed = (\<lambda>h q. None),
     StmtGet = (\<lambda>h q dest arg. Inr dest), Get = (\<lambda>h dest q args. Inr dest),
     Select = (\<lambda>h dest q args. Inr []), Rebind = (\<lambda>q. q), calls = []\<rparr>"

text \<open>
  Articles and their authors, after the test models \<^verbatim>\<open>Article\<close> and \<^verbatim>\<open>User\<close>:
  \<^verbatim>\<open>Article.Author\<close> is a to-one association through \<^verbatim>\<open>AuthorID\<close>, and
  \<^verbatim>\<open>User.Avatars\<close> a to-many association through \<^verbatim>\<open>Avatar.UserID\<close>.
\<close>

definition exUser :: "int \<Rightarrow> val" where
  "exUser k = StructV [(''ID'', IntV k), (''Username'', StrV []), (''Avatars'', SliceV [])]"

definition exArticle :: "int \<Rightarrow> int \<Rightarrow> val" where
  "exArticle k a = StructV [(''ID'', IntV k), (''AuthorID'', IntV a), (''Author'', exUser 0)]"

definition exAuthor :: Field where
  "exAuthor = zeroField\<lparr>Name := ''Author'', TableName := ''articles'',
     ColumnName := ''author_id'', IsAssociation := True,
     ForeignKey := Some \<lparr>FieldName = ''AuthorID'', AssociationFieldName = ''Author'',
       Model = exArticle 0 0,
       Reference = \<lparr>RefColumnName = ''id'', RefModel = exUser 0,
         RefAssociationFieldName = ''Author''\<rparr>\<rparr>,
     IsAssociationTypeOne := True, PrimaryKeyFieldName := ''ID'',
     RelationFieldName := ''AuthorID'', RelationColumnName := ''id'',
     RelationPrimaryKeyFieldName := ''ID'', CreateAssociation := exUser 0\<rparr>"

definition exAvatars :: Field where
  "exAvatars = zeroField\<lparr>Name := ''Avatars'', TableName := ''users'',
     ColumnName := ''avatars'', IsAssociation := True,
     ForeignKey := Some \<lparr>FieldName = ''UserID'', AssociationFieldName = ''User'',
       Model = StructV [(''ID'', IntV 0), (''UserID'', IntV 0)],
       Reference = \<lparr>RefColumnName = ''id'', RefModel = exUser 0,
         RefAssociationFieldName = ''Avatars''\<rparr>\<rparr>,
     IsAssociationTypeOne := False, PrimaryKeyFieldName := ''ID'',
     RelationFieldName := ''ID'', RelationColumnName := ''user_id'',
     RelationPrimaryKeyFieldName := ''ID'', CreateAssociation := SliceV []\<rparr>"

definition exWhere :: "(string \<times> val) list \<Rightarrow> string" where
  "exWhere params = Join (map (\<lambda>(k, v). k @ '' = :'' @ k) params) '' AND ''"

definition exArticleSchema :: Schema where
  "exArticleSchema = \<lparr>SchemaTableName = ''articles'', PrimaryField = exKeyField,
     Fields = [], Associations = [(''Author'', exAuthor), (''Avatars'', exAvatars)],
     ColumnPaths = ''*'', WhereColumnPaths = exWhere\<rparr>"

definition exEnv :: Env where
  "exEnv = \<lparr>getSchema = (\<lambda>v. Inr exArticleSchema), tableName = (\<lambda>v. ''users''),
     named = (\<lambda>q params. Inr (q, map snd params)), rangeOrder = (\<lambda>ks. ks)\<rparr>"

text \<open>
  A model in the way of the test models \<^verbatim>\<open>Comment\<close> and \<^verbatim>\<open>User\<close>: a key, an
  association to a model, and \<^verbatim>\<open>CreatedAt time.Time\<close>, a field of kind struct whose type
  has no method \<^verbatim>\<open>TableName\<close>. The second model is the same without that field.
\<close>

definition exComment :: ModelType where
  "exComment = \<lparr>mTableName = ''comments'', mFields = Some
     [\<lparr>sfName = ''ID'', sfKind = KInt, sfDbTag = ''id'', sfTag = [], sfModel = None\<rparr>,
      \<lparr>sfName = ''User'', sfKind = KStruct, sfDbTag = [], sfTag = [],
        sfModel = Some ''users''\<rparr>,
      \<lparr>sfName = ''CreatedAt'', sfKind = KStruct, sfDbTag = ''created_at'', sfTag = [],
        sfModel = None\<rparr>]\<rparr>"

definition exCommentPlain :: ModelType where
  "exCommentPlain = \<lparr>mTableName = ''comments'', mFields = Some
     [\<lparr>sfName = ''ID'', sfKind = KInt, sfDbTag = ''id'', sfTag = [], sfModel = None\<rparr>,
      \<lparr>sfName = ''User'', sfKind = KStruct, sfDbTag = [], sfTag = [],
        sfModel = Some ''users''\<rparr>]\<rparr>"

definition exSnake :: "string \<Rightarrow> string" where
  "exSnake s = (if s = ''User'' then ''user'' else s)"

definition exArticles :: "val list" where
  "exArticles = [exArticle 1 5, exArticle 2 5, exArticle 3 0, exArticle 4 6]"

section \<open>Retry: properties\<close>

lemma retry_loop_trace:
  "retry_loop handler ds e s tr = (r, s', tr') \<Longrightarrow>
     \<exists>new. tr' = tr @ new \<and> map fst new = take (length new) ds
       \<and> (\<forall>i < length new - 1. snd (new ! i) \<noteq> None)
       \<and> r = (if new = [] then e else snd (last new))
       \<and> (r \<noteq> None \<longrightarrow> length new = length ds)
       \<and> s' = fold (\<lambda>d t. snd (handler d t)) (map fst new) s"
proof (induction ds arbitrary: e s tr)
  case Nil
  then show ?case by auto
next
  case (Cons d ds)
  obtain e1 s1 where h: "handler d s = (e1, s1)" by (cases "handler d s")
  show ?case
  proof (cases e1)
    case None
    with Cons.prems h have "r = None" "s' = s1" "tr' = tr @ [(d, None)]" by auto
    then show ?thesis using h by (intro exI[of _ "[(d, None)]"]) simp
  next
    case (Some x)
    with Cons.prems h have
      "retry_loop handler ds (Some x) s1 (tr @ [(d, Some x)]) = (r, s', tr')" by simp
    from Cons.IH[OF this] obtain new where n:
      "tr' = (tr @ [(d, Some x)]) @ new" "map fst new = take (length new) ds"
      "\<forall>i < length new - 1. snd (new ! i) \<noteq> None"
      "r = (if new = [] then Some x else snd (last new))"
      "r \<noteq> None \<longrightarrow> length new = length ds"
      "s' = fold (\<lambda>d t. snd (handler d t)) (map fst new) s1" by blast
    let ?new = "(d, Some x) # new"
    have "\<forall>i < length ?new - 1. snd (?new ! i) \<noteq> None"
    proof (intro allI impI)
      fix i assume i: "i < length ?new - 1"
      show "snd (?new ! i) \<noteq> None"
      proof (cases i)
        case 0
        then show ?thesis by simp
      next
        case (Suc j)
        with i have "j < length new - 1" by simp
        with n(3) Suc show ?thesis by simp
      qed
    qed
    with n h show ?thesis by (intro exI[of _ ?new]) auto
  qed
qed

text \<open>
  C8. With no driver, Retry returns an error and the handler is never invoked (empty
  trace, state untouched). With at least one driver, the handler is invoked on a prefix
  of the drivers, in their order; every invocation but the last one failed; the result is
  what the last invocation returned; so a \<^verbatim>\<open>nil\<close> result is the first success, after
  which no further driver is tried, and an error result means that every driver was
  tried and the error is the one of the last driver in the list.
\<close>

theorem Retry_order_and_result:
  "Retry handler [] s = (Some ErrSelectorMissingRetryConnection, s, []) \<and>
   (drivers \<noteq> [] \<longrightarrow> Retry handler drivers s = (r, s', tr) \<longrightarrow>
      tr \<noteq> [] \<and> map fst tr = take (length tr) drivers
      \<and> (\<forall>i < length tr - 1. snd (tr ! i) \<noteq> None)
      \<and> r = snd (last tr)
      \<and> (r \<noteq> None \<longrightarrow> map fst tr = drivers \<and> fst (last tr) = last drivers)
      \<and> s' = fold (\<lambda>d t. snd (handler d t)) (map fst tr) s)"
proof (intro conjI impI)
  show "Retry handler [] s = (Some ErrSelectorMissingRetryConnection, s, [])"
    by (simp add: Retry_def)
next
  assume ne: "drivers \<noteq> []" and run: "Retry handler drivers s = (r, s', tr)"
  then have "retry_loop handler drivers None s [] = (r, s', tr)"
    by (simp add: Retry_def)
  from retry_loop_trace[OF this] have t:
    "map fst tr = take (length tr) drivers"
    "\<forall>i < length tr - 1. snd (tr ! i) \<noteq> None"
    "r = (if tr = [] then None else snd (last tr))"
    "r \<noteq> None \<longrightarrow> length tr = length drivers"
    "s' = fold (\<lambda>d t. snd (handler d t)) (map fst tr) s" by auto
  have nonempty: "tr \<noteq> []"
  proof
    assume "tr = []"
    with run ne show False
      by (cases drivers) (auto simp: Retry_def split: prod.splits option.splits
          dest!: retry_loop_trace)
  qed
  show "tr \<noteq> []" by (rule nonempty)
  show "map fst tr = take (length tr) drivers" by (rule t(1))
  show "\<forall>i < length tr - 1. snd (tr ! i) \<noteq> None" by (rule t(2))
  show "r = snd (last tr)" using t(3) nonempty by simp
  show "s' = fold (\<lambda>d t. snd (handler d t)) (map fst tr) s" by (rule t(5))
  show "map fst tr = drivers" if "r \<noteq> None"
  proof -
    from that t(4) have "length tr = length drivers" by simp
    with t(1) show ?thesis by simp
  qed
  show "fst (last tr) = last drivers" if "r \<noteq> None"
  proof -
    from that t(4) have "length tr = length drivers" by simp
    with t(1) have "map fst tr = drivers" by simp
    moreover have "fst (last tr) = last (map fst tr)" using nonempty by (simp add: last_map)
    ultimately show ?thesis by simp
  qed
qed

theorem Retry_order_and_result_witness:
  "Retry only_b [''a'', ''b'', ''c''] 0 = (None, 2, [(''a'', Some (DriverError ''a'')), (''b'', None)])
   \<and> map fst [(''a'', Some (DriverError ''a'')), (''b'', None :: err option)]
       = take 2 [''a'', ''b'', ''c'']
   \<and> Retry only_b [] 0 = (Some ErrSelectorMissingRetryConnection, 0, [])"
proof -
  have run: "Retry only_b [''a'', ''b'', ''c''] 0
      = (None, 2, [(''a'', Some (DriverError ''a'')), (''b'', None)])"
    by (simp add: Retry_def only_b_def)
  from Retry_order_and_result[of only_b 0 "[''a'', ''b'', ''c'']" None 2
      "[(''a'', Some (DriverError ''a'')), (''b'', None)]"] run
  show ?thesis by simp
qed

section \<open>Query builder: properties\<close>

lemma saveColumns_eq:
  "saveColumns fs (cs, igs, vs) =
     (cs @ map ColumnName (filter (\<lambda>f. \<not> isIgnored f) fs),
      igs @ map ColumnName (filter (\<lambda>f. isIgnored f \<or> hasDefault f) fs),
      vs @ map (\<lambda>f. if hasDefault f then defaultValue f else '':'' @ ColumnName f)
             (filter (\<lambda>f. \<not> isIgnored f) fs))"
  by (induction fs arbitrary: cs igs vs) (auto simp: Let_def)

lemma saveQuery_shape:
  "saveQuery schema z =
    (let written = filter (\<lambda>f. \<not> isIgnored f) (map snd (Fields schema));
         cols = map ColumnName written;
         vals = map (\<lambda>f. if hasDefault f then defaultValue f else '':'' @ ColumnName f) written;
         returned = map ColumnName
                      (filter (\<lambda>f. isIgnored f \<or> hasDefault f) (map snd (Fields schema)));
         pkc = ColumnName (PrimaryField schema)
     in (if z then ''INSERT INTO '' @ SchemaTableName schema @ '' ('' @ Join cols '', ''
                     @ '') VALUES ('' @ Join vals '', '' @ '')''
         else ''UPDATE '' @ SchemaTableName schema @ '' SET ''
                @ Join (map (\<lambda>(c, v). c @ '' = '' @ v) (zip cols vals)) '', ''
                @ '' WHERE '' @ pkc @ '' = :'' @ pkc)
        @ (if returned = [] then [] else '' RETURNING '' @ Join returned '', ''))"
  unfolding saveQuery_def saveColumns_eq by (simp add: Let_def)

lemma exField_tags:
  "isIgnored (exField n c []) = False"
  "hasDefault (exField n c []) = False"
  "isIgnored (exField n c [(''db'', t)]) = False"
  "hasDefault (exField n c [(''db'', t)]) = False"
  "isIgnored (exField n c [(''sqlxx'', [(''default'', ''now()'')])]) = False"
  "hasDefault (exField n c [(''sqlxx'', [(''default'', ''now()'')])]) = True"
  "defaultValue (exField n c [(''sqlxx'', [(''default'', ''now()'')])]) = ''now()''"
  "isIgnored exKeyField = True"
  "hasDefault exKeyField = False"
  by (simp_all add: isIgnored_def hasDefault_def defaultValue_def TagsGet_def TagGet_def
      exField_def exKeyField_def StructTagName_def StructTagIgnored_def StructTagDefault_def)

lemma exField_ColumnName: "ColumnName (exField n c t) = c" "ColumnName exKeyField = ''c''"
  by (simp_all add: exField_def exKeyField_def)

lemma exOut_key: "GetField (exOut k) (Name (PrimaryField exSchema)) = Inr (IntV k)"
  by (simp add: GetField_def exOut_def exSchema_def exField_def exKeyField_def)

lemma exOut_key_field: "GetField (exOut k) (Name exKeyField) = Inr (IntV k)"
  by (simp add: GetField_def exOut_def exField_def exKeyField_def)

lemma isZeroValue_IntV: "isZeroValue (IntV k) = Inr (k = 0)"
  by (simp add: isZeroValue_def)

text \<open>
  C1. For an entity whose schema resolves and whose primary-key field holds a value that
  can be compared with its zero (\<open>z\<close> says whether it is zero), \<^verbatim>\<open>Save\<close> hands the driver
  exactly one statement: the calls it adds are the preparation of that statement and,
  when the preparation succeeds, its one execution. The statement is
  \<^verbatim>\<open>INSERT INTO table (cols) VALUES (vals)\<close> when the key is zero and
  \<^verbatim>\<open>UPDATE table SET col = val, ... WHERE pk = :pk\<close> otherwise, followed by the
  \<^verbatim>\<open>RETURNING\<close> clause when there are ignored or defaulted columns.
\<close>

theorem Save_one_statement:
  assumes schema: "getSchemaFromInterface out = Inr schema"
    and pk: "GetField out (Name (PrimaryField schema)) = Inr pk"
    and zero: "isZeroValue pk = Inr z"
  shows "let written = filter (\<lambda>f. \<not> isIgnored f) (map snd (Fields schema));
             cols = map ColumnName written;
             vals = map (\<lambda>f. if hasDefault f then defaultValue f else '':'' @ ColumnName f)
                      written;
             returned = map ColumnName
                (filter (\<lambda>f. isIgnored f \<or> hasDefault f) (map snd (Fields schema)));
             returning = (if returned = [] then [] else '' RETURNING '' @ Join returned '', '');
             pkc = ColumnName (PrimaryField schema);
             stmt = (if z then ''INSERT INTO '' @ SchemaTableName schema @ '' (''
                             @ Join cols '', '' @ '') VALUES ('' @ Join vals '', '' @ '')''
                     else ''UPDATE '' @ SchemaTableName schema @ '' SET ''
                            @ Join (map (\<lambda>(c, v). c @ '' = '' @ v) (zip cols vals)) '', ''
                            @ '' WHERE '' @ pkc @ '' = :'' @ pkc) @ returning;
             prepared = (PrepareNamed driver (calls driver) stmt = None)
         in calls (fst (snd (Save getSchemaFromInterface driver out)))
              = calls driver @ CallPrepareNamed stmt
                  # (if prepared then [CallStmtGet stmt out out] else [])"
proof -
  have "calls (fst (snd (Save getSchemaFromInterface driver out)))
      = calls driver @ CallPrepareNamed (saveQuery schema z)
          # (if PrepareNamed driver (calls driver) (saveQuery schema z) = None
             then [CallStmtGet (saveQuery schema z) out out] else [])"
    using schema pk zero
    by (simp add: Save_def Let_def driverPrepareNamed_def stmtGet_def
        split: option.splits sum.splits prod.splits)
  then show ?thesis
    unfolding saveQuery_shape Let_def by simp
qed

theorem Save_one_statement_witness:
  "calls (fst (snd (Save (\<lambda>v. Inr exSchema) okDriver (exOut 0))))
     = [CallPrepareNamed ''INSERT INTO t (a, b) VALUES (:a, :b) RETURNING c'',
        CallStmtGet ''INSERT INTO t (a, b) VALUES (:a, :b) RETURNING c'' (exOut 0) (exOut 0)]
   \<and> calls (fst (snd (Save (\<lambda>v. Inr exSchema) okDriver (exOut 7))))
     = [CallPrepareNamed ''UPDATE t SET a = :a, b = :b WHERE c = :c RETURNING c'',
        CallStmtGet ''UPDATE t SET a = :a, b = :b WHERE c = :c RETURNING c'' (exOut 7) (exOut 7)]"
proof -
  have z0: "isZeroValue (IntV 0) = Inr True" and z7: "isZeroValue (IntV 7) = Inr False"
    by (simp_all add: isZeroValue_IntV)
  from Save_one_statement[of "\<lambda>v. Inr exSchema" "exOut 0" exSchema "IntV 0" True okDriver,
      OF refl exOut_key z0]
    Save_one_statement[of "\<lambda>v. Inr exSchema" "exOut 7" exSchema "IntV 7" False okDriver,
      OF refl exOut_key z7]
  show ?thesis
    by (simp add: Let_def exSchema_def exField_tags exField_ColumnName okDriver_def)
qed

text \<open>
  C5. The statement \<^verbatim>\<open>Save\<close> builds (\<open>z\<close>: the primary key is zero): the written columns are
  those of the fields not marked ignored, in the order the fields are visited; the value
  of a written column is its default expression, verbatim, when it has one, and the bound
  parameter \<open>:column\<close> otherwise; and \<^verbatim>\<open>RETURNING\<close> with every ignored or defaulted
  column is appended exactly when there is such a field.
\<close>

theorem saveQuery_columns_values_returning:
  "let fs = map snd (Fields schema);
       written = filter (\<lambda>f. \<not> isIgnored f) fs;
       cols = map ColumnName written;
       vals = map (\<lambda>f. if hasDefault f then defaultValue f else '':'' @ ColumnName f) written;
       returned = map ColumnName (filter (\<lambda>f. isIgnored f \<or> hasDefault f) fs);
       pkc = ColumnName (PrimaryField schema);
       body = (if z then ''INSERT INTO '' @ SchemaTableName schema @ '' ('' @ Join cols '', ''
                       @ '') VALUES ('' @ Join vals '', '' @ '')''
               else ''UPDATE '' @ SchemaTableName schema @ '' SET ''
                      @ Join (map (\<lambda>(c, v). c @ '' = '' @ v) (zip cols vals)) '', ''
                      @ '' WHERE '' @ pkc @ '' = :'' @ pkc)
   in saveQuery schema z =
        body @ (if (\<exists>f \<in> set fs. isIgnored f \<or> hasDefault f)
                then '' RETURNING '' @ Join returned '', '' else [])"
proof -
  have "(filter (\<lambda>f. isIgnored f \<or> hasDefault f) (map snd (Fields schema)) = [])
      = (\<not> (\<exists>f \<in> set (map snd (Fields schema)). isIgnored f \<or> hasDefault f))"
    by (simp add: filter_empty_conv)
  then show ?thesis
    unfolding saveQuery_shape Let_def by simp
qed

theorem saveQuery_columns_values_returning_witness:
  "saveQuery exSchema True = ''INSERT INTO t (a, b) VALUES (:a, :b) RETURNING c''
   \<and> saveQuery exSchemaDefault True = ''INSERT INTO t (a, u) VALUES (:a, now()) RETURNING u, c''
   \<and> saveQuery exSchemaDefault False = ''UPDATE t SET a = :a, u = now() WHERE c = :c RETURNING u, c''"
  using saveQuery_columns_values_returning[of exSchema True]
    saveQuery_columns_values_returning[of exSchemaDefault True]
    saveQuery_columns_values_returning[of exSchemaDefault False]
  by (simp add: Let_def exSchema_def exSchemaDefault_def exField_tags exField_ColumnName)

text \<open>
  C2. When the primary-key field of the entity holds its type's zero value, \<^verbatim>\<open>Delete\<close>
  and \<^verbatim>\<open>SoftDelete\<close> return an error and leave the driver, with the list of the calls
  made on it, and the entity as they were: no statement is executed. The error is the
  one of the zero-key guard, or the one of the schema lookup when that fails first.
\<close>

theorem Delete_SoftDelete_zero_key:
  assumes "\<forall>schema. getSchemaFromInterface out = Inr schema \<longrightarrow>
             (\<exists>pk. GetField out (Name (PrimaryField schema)) = Inr pk
                   \<and> isZeroValue pk = Inr True)"
  shows "\<exists>e. Delete getSchemaFromInterface driver out = (Some e, driver, out)
           \<and> SoftDelete getSchemaFromInterface now driver out fieldName = (Some e, driver, out)
           \<and> (e = NoPrimaryKey \<or> getSchemaFromInterface out = Inl e)"
proof (cases "getSchemaFromInterface out")
  case (Inl e)
  then show ?thesis by (simp add: Delete_def SoftDelete_def)
next
  case (Inr schema)
  with assms obtain pk where "GetField out (Name (PrimaryField schema)) = Inr pk"
    "isZeroValue pk = Inr True" by blast
  with Inr show ?thesis by (simp add: Delete_def SoftDelete_def Let_def)
qed

theorem Delete_SoftDelete_zero_key_witness:
  "Delete (\<lambda>v. Inr exSchema) okDriver (exOut 0) = (Some NoPrimaryKey, okDriver, exOut 0)
   \<and> SoftDelete (\<lambda>v. Inr exSchema) (StrV ''2026-01-01'') okDriver (exOut 0) ''B''
       = (Some NoPrimaryKey, okDriver, exOut 0)
   \<and> calls (fst (snd (Delete (\<lambda>v. Inr exSchema) okDriver (exOut 7))))
       = [CallNamedExec ''DELETE FROM t WHERE c = :c'' (exOut 7)]"
proof -
  have "\<forall>schema. (\<lambda>v. Inr exSchema) (exOut 0) = Inr schema \<longrightarrow>
          (\<exists>pk. GetField (exOut 0) (Name (PrimaryField schema)) = Inr pk
                \<and> isZeroValue pk = Inr True)"
    by (auto simp: exOut_key isZeroValue_IntV)
  from Delete_SoftDelete_zero_key[OF this, of okDriver "StrV ''2026-01-01''" "''B''"]
  have "Delete (\<lambda>v. Inr exSchema) okDriver (exOut 0) = (Some NoPrimaryKey, okDriver, exOut 0)
      \<and> SoftDelete (\<lambda>v. Inr exSchema) (StrV ''2026-01-01'') okDriver (exOut 0) ''B''
          = (Some NoPrimaryKey, okDriver, exOut 0)"
    by auto
  moreover have "calls (fst (snd (Delete (\<lambda>v. Inr exSchema) okDriver (exOut 7))))
       = [CallNamedExec ''DELETE FROM t WHERE c = :c'' (exOut 7)]"
    by (simp add: Delete_def Let_def exOut_key_field isZeroValue_IntV driverNamedExec_def
        okDriver_def exSchema_def exField_ColumnName)
  ultimately show ?thesis by simp
qed

section \<open>Preloader: properties\<close>

lemma resolvePaths_first_unresolved:
  "\<exists>p \<in> set paths. map_of (Associations schema) p = None \<Longrightarrow>
     \<exists>p \<in> set paths. map_of (Associations schema) p = None
        \<and> resolvePaths schema paths mapping = Inl (NotValidAssociation p)"
proof (induction paths arbitrary: mapping)
  case Nil
  then show ?case by simp
next
  case (Cons path paths)
  show ?case
  proof (cases "map_of (Associations schema) path")
    case None
    then show ?thesis by auto
  next
    case (Some field)
    with Cons.prems have "\<exists>p \<in> set paths. map_of (Associations schema) p = None" by auto
    from Cons.IH[OF this] Some show ?thesis by (auto simp: Let_def)
  qed
qed

lemma resolvePaths_stops:
  "\<forall>p \<in> set valid. map_of (Associations schema) p \<noteq> None \<Longrightarrow>
   map_of (Associations schema) bad = None \<Longrightarrow>
     resolvePaths schema (valid @ bad # others) mapping = Inl (NotValidAssociation bad)"
  by (induction valid arbitrary: mapping) (auto simp: Let_def)

lemma exAssoc:
  "map_of (Associations exArticleSchema) ''Author'' = Some exAuthor"
  "map_of (Associations exArticleSchema) ''Avatars'' = Some exAvatars"
  "map_of (Associations exArticleSchema) ''Nope'' = None"
  by (simp_all add: exArticleSchema_def)

text \<open>
  C10. A root that is no pointer, or a nil pointer, is not addressable: \<^verbatim>\<open>preload\<close>
  returns the error \<^verbatim>\<open>model instance must be addressable (pointer required)\<close> as an
  error value, with no statement recorded and the driver and the root as they were. The
  result is the same whatever the schema lookup and the other outside parts would do, so
  none of them has a part in it.
\<close>

theorem preload_not_addressable:
  "\<not> CanAddr out \<Longrightarrow>
     preload env driver out paths = ([], Some NotAddressable, driver, out)
     \<and> returned_as_value NotAddressable"
  by (simp add: preload_def)

theorem preload_not_addressable_witness:
  "preload exEnv okDriver (NoPointer (exArticle 1 5)) [''Author'']
      = ([], Some NotAddressable, okDriver, NoPointer (exArticle 1 5))
   \<and> preload exEnv okDriver NilPointer [''Author''] = ([], Some NotAddressable, okDriver, NilPointer)
   \<and> preload exEnv okDriver (NoPointer NilV) [] = ([], Some NotAddressable, okDriver, NoPointer NilV)"
  using preload_not_addressable[of "NoPointer (exArticle 1 5)" exEnv okDriver "[''Author'']"]
    preload_not_addressable[of NilPointer exEnv okDriver "[''Author'']"]
    preload_not_addressable[of "NoPointer NilV" exEnv okDriver "[]"]
  by simp

text \<open>
  C6. When the schema of the root resolves and some requested path is not a key of its
  associations, \<^verbatim>\<open>preload\<close> returns the error naming such a path (the first one), no
  statement is recorded, and the driver, with its list of calls, and the root are as they
  were: no query was issued.
\<close>

theorem preload_unresolved_path_no_query:
  assumes "getSchema env v = Inr schema"
    and "\<exists>p \<in> set paths. map_of (Associations schema) p = None"
  shows "\<exists>p \<in> set paths. map_of (Associations schema) p = None
           \<and> preload env driver (Pointer v) paths
               = ([], Some (NotValidAssociation p), driver, Pointer v)"
proof -
  from resolvePaths_first_unresolved[OF assms(2), of "[]"] obtain p where
    "p \<in> set paths" "map_of (Associations schema) p = None"
    "resolvePaths schema paths [] = Inl (NotValidAssociation p)" by blast
  with assms(1) show ?thesis by (auto simp: preload_def Let_def)
qed

theorem preload_unresolved_path_no_query_witness:
  "preload exEnv okDriver (Pointer (exArticle 1 5)) [''Nope'', ''Author'']
     = ([], Some (NotValidAssociation ''Nope''), okDriver, Pointer (exArticle 1 5))"
proof -
  have g: "getSchema exEnv (exArticle 1 5) = Inr exArticleSchema" by (simp add: exEnv_def)
  have b: "\<exists>p \<in> set [''Nope'', ''Author'']. map_of (Associations exArticleSchema) p = None"
    by (simp add: exAssoc)
  from preload_unresolved_path_no_query[OF g b, of okDriver]
  show ?thesis by (auto simp: exAssoc)
qed

text \<open>
  C4, as the code has it. The paths are resolved one after the other before any level is
  processed: when the paths before an unresolved one are all valid associations,
  \<^verbatim>\<open>preload\<close> still returns the error of the unresolved path, records no statement and
  leaves the driver and the root as they were, whatever paths follow. No query is issued
  for the valid paths.
\<close>

theorem preload_stops_at_unresolved_path:
  assumes "getSchema env v = Inr schema"
    and "\<forall>p \<in> set valid. map_of (Associations schema) p \<noteq> None"
    and "map_of (Associations schema) bad = None"
  shows "preload env driver (Pointer v) (valid @ bad # others)
           = ([], Some (NotValidAssociation bad), driver, Pointer v)"
  using assms by (simp add: preload_def Let_def resolvePaths_stops)

theorem preload_stops_at_unresolved_path_witness:
  "preload exEnv okDriver (Pointer (exArticle 1 5)) [''Author'', ''Nope'', ''Avatars'']
     = ([], Some (NotValidAssociation ''Nope''), okDriver, Pointer (exArticle 1 5))"
proof -
  have g: "getSchema exEnv (exArticle 1 5) = Inr exArticleSchema" by (simp add: exEnv_def)
  have v: "\<forall>p \<in> set [''Author'']. map_of (Associations exArticleSchema) p \<noteq> None"
    by (simp add: exAssoc)
  from preload_stops_at_unresolved_path[OF g v exAssoc(3), of okDriver "[''Avatars'']"]
  show ?thesis by simp
qed

text \<open>
  The claim C4 as stated fails: \<open>Author\<close> alone issues its query, and with an unresolved
  path beside it none is issued.
\<close>

theorem preload_other_paths_counterexample:
  "fst (preload exEnv okDriver (Pointer (exArticle 1 5)) [''Author'', ''Nope'']) = []
   \<and> fst (snd (preload exEnv okDriver (Pointer (exArticle 1 5)) [''Author'', ''Nope'']))
       = Some (NotValidAssociation ''Nope'')
   \<and> calls (fst (snd (snd (preload exEnv okDriver (Pointer (exArticle 1 5))
         [''Author'', ''Nope''])))) = []
   \<and> calls (fst (snd (snd (preload exEnv okDriver (Pointer (exArticle 1 5)) [''Author'']))))
       = [CallGet (exUser 0) ''SELECT * FROM users WHERE id = :id LIMIT 1'' [IntV 5]]"
  by code_simp

lemma Split_no_sep: "sep \<notin> set s \<Longrightarrow> Split s sep = [s]"
  by (induction s) auto

lemma preloadSingleOne_zero:
  "IsAssociation field \<Longrightarrow> ForeignKey field = Some fkey \<Longrightarrow>
   GetInt64PrimaryKey out (FieldName fkey) = Inr 0 \<Longrightarrow>
     preloadSingleOne env driver out field = ([], None, driver, out)"
  by (simp add: preloadSingleOne_def checkAssociation_def)

text \<open>
  C7. A single root (not a slice) whose schema resolves, and a path of one segment that
  names a to-one association with its foreign key set up: when the foreign-key field of
  the root reads as zero, \<^verbatim>\<open>preload\<close> returns no error and no recorded statement, and
  the driver, with its list of calls, and the root, with its association field, are as
  they were.
\<close>

theorem preload_to_one_zero_key:
  assumes schema: "getSchema env v = Inr schema"
    and single: "\<not> IsSlice v"
    and assoc: "map_of (Associations schema) path = Some field"
    and level: "CHR ''.'' \<notin> set path"
    and one: "IsAssociationTypeOne field"
    and chk: "IsAssociation field" "ForeignKey field = Some fkey"
    and zero: "GetInt64PrimaryKey v (FieldName fkey) = Inr 0"
  shows "preload env driver (Pointer v) [path] = ([], None, driver, Pointer v)"
proof -
  let ?field = "field\<lparr>DestinationField := path\<rparr>"
  have r: "resolvePaths schema [path] [] = Inr [(1, [?field])]"
    using assoc level by (simp add: Split_no_sep Let_def)
  have s: "preloadSingleOne env driver v ?field = ([], None, driver, v)"
    using chk zero by (intro preloadSingleOne_zero[where fkey = fkey]) simp_all
  have "preloadLevels env driver v False [(1, [?field])] [1] [] = ([], None, driver, v)"
    using one s by simp
  with schema single r show ?thesis
    by (simp add: preload_def)
qed

theorem preload_to_one_zero_key_witness:
  "preload exEnv okDriver (Pointer (exArticle 1 0)) [''Author'']
     = ([], None, okDriver, Pointer (exArticle 1 0))"
proof -
  have g: "getSchema exEnv (exArticle 1 0) = Inr exArticleSchema" by (simp add: exEnv_def)
  have s: "\<not> IsSlice (exArticle 1 0)" by (simp add: IsSlice_def exArticle_def)
  have l: "CHR ''.'' \<notin> set ''Author''" by simp
  have f: "IsAssociationTypeOne exAuthor" "IsAssociation exAuthor"
    "ForeignKey exAuthor = Some \<lparr>FieldName = ''AuthorID'', AssociationFieldName = ''Author'',
       Model = exArticle 0 0,
       Reference = \<lparr>RefColumnName = ''id'', RefModel = exUser 0,
         RefAssociationFieldName = ''Author''\<rparr>\<rparr>"
    by (simp_all add: exAuthor_def)
  have z: "GetInt64PrimaryKey (exArticle 1 0) (FieldName \<lparr>FieldName = ''AuthorID'',
       AssociationFieldName = ''Author'', Model = exArticle 0 0,
       Reference = \<lparr>RefColumnName = ''id'', RefModel = exUser 0,
         RefAssociationFieldName = ''Author''\<rparr>\<rparr>) = Inr 0"
    by (simp add: GetInt64PrimaryKey_def GetFieldValue_def GetField_def exArticle_def)
  from preload_to_one_zero_key[OF g s exAssoc(1) l f z, of okDriver]
  show ?thesis .
qed

lemma collected_key_props:
  "distinct fks \<Longrightarrow> distinct (if fk \<noteq> 0 \<and> \<not> InInt64Slice fks fk then fks @ [fk] else fks)"
  "0 \<notin> set fks \<Longrightarrow> 0 \<notin> set (if fk \<noteq> 0 \<and> \<not> InInt64Slice fks fk then fks @ [fk] else fks)"
  "set (if fk \<noteq> 0 \<and> \<not> InInt64Slice fks fk then fks @ [fk] else fks) = set fks \<union> {k. k \<noteq> 0 \<and> k = fk}"
  by (auto simp: InInt64Slice_def)

lemma keys_Cons:
  "g inst = Inr fk \<Longrightarrow>
     {k. k \<noteq> (0::int) \<and> (\<exists>x \<in> set (inst # rest). g x = Inr k)}
       = {k. k \<noteq> 0 \<and> k = fk} \<union> {k. k \<noteq> 0 \<and> (\<exists>x \<in> set rest. g x = Inr k)}"
  by auto

lemma sliceOneKeys_Cons:
  "GetInt64PrimaryKey inst (PrimaryKeyFieldName field) = Inr pk \<Longrightarrow>
   GetInt64PrimaryKey inst (RelationFieldName field) = Inr fk \<Longrightarrow>
     sliceOneKeys field (inst # rest) i fks m =
       sliceOneKeys field rest (Suc i) (if fk \<noteq> 0 \<and> \<not> InInt64Slice fks fk then fks @ [fk] else fks)
         (AList.update pk
            (AList.update fk i (case map_of m pk of None \<Rightarrow> [] | Some fm \<Rightarrow> fm)) m)"
  by (simp add: Let_def)

lemma sliceOneKeys_Inl:
  "GetInt64PrimaryKey inst (PrimaryKeyFieldName field) = Inl e \<Longrightarrow>
     sliceOneKeys field (inst # rest) i fks m = Inl e"
  "GetInt64PrimaryKey inst (PrimaryKeyFieldName field) = Inr pk \<Longrightarrow>
   GetInt64PrimaryKey inst (RelationFieldName field) = Inl e \<Longrightarrow>
     sliceOneKeys field (inst # rest) i fks m = Inl e"
  by simp_all

lemma sliceOneKeys_collect:
  "sliceOneKeys field slc i fks m = Inr (fks', m') \<Longrightarrow> distinct fks \<Longrightarrow> 0 \<notin> set fks \<Longrightarrow>
     distinct fks' \<and> 0 \<notin> set fks'
     \<and> set fks' = set fks \<union> {k. k \<noteq> 0 \<and>
          (\<exists>x \<in> set slc. GetInt64PrimaryKey x (RelationFieldName field) = Inr k)}"
proof (induction slc arbitrary: i fks m)
  case Nil
  then show ?case by simp
next
  case (Cons inst rest)
  show ?case
  proof (cases "GetInt64PrimaryKey inst (PrimaryKeyFieldName field)")
    case (Inl e)
    from sliceOneKeys_Inl(1)[OF Inl] Cons.prems(1) show ?thesis by simp
  next
    case pk: (Inr pk)
    show ?thesis
    proof (cases "GetInt64PrimaryKey inst (RelationFieldName field)")
      case (Inl e)
      from sliceOneKeys_Inl(2)[OF pk Inl] Cons.prems(1) show ?thesis by simp
    next
      case fk: (Inr fk)
      from Cons.prems(1) have rec:
        "sliceOneKeys field rest (Suc i) (if fk \<noteq> 0 \<and> \<not> InInt64Slice fks fk then fks @ [fk] else fks)
           (AList.update pk
              (AList.update fk i (case map_of m pk of None \<Rightarrow> [] | Some fm \<Rightarrow> fm)) m)
          = Inr (fks', m')"
        unfolding sliceOneKeys_Cons[OF pk fk] .
      from Cons.IH[OF rec collected_key_props(1)[OF Cons.prems(2)] collected_key_props(2)[OF Cons.prems(3)]]
      have ih: "distinct fks'" "0 \<notin> set fks'"
        "set fks' = set (if fk \<noteq> 0 \<and> \<not> InInt64Slice fks fk then fks @ [fk] else fks) \<union> {k. k \<noteq> 0 \<and>
          (\<exists>x \<in> set rest. GetInt64PrimaryKey x (RelationFieldName field) = Inr k)}"
        by blast+
      have "set fks' = set fks \<union> ({k. k \<noteq> 0 \<and> k = fk} \<union> {k. k \<noteq> 0 \<and>
          (\<exists>x \<in> set rest. GetInt64PrimaryKey x (RelationFieldName field) = Inr k)})"
        unfolding ih(3) collected_key_props(3) by (simp only: Un_assoc)
      then have "set fks' = set fks \<union> {k. k \<noteq> 0 \<and>
          (\<exists>x \<in> set (inst # rest). GetInt64PrimaryKey x (RelationFieldName field) = Inr k)}"
        unfolding keys_Cons[of "\<lambda>x. GetInt64PrimaryKey x (RelationFieldName field)", OF fk] .
      with ih(1,2) show ?thesis by blast
    qed
  qed
qed


lemma sliceManyKeys_Cons:
  "GetInt64PrimaryKey inst (PrimaryKeyFieldName field) = Inr fk \<Longrightarrow>
     sliceManyKeys field (inst # rest) i fks m =
       sliceManyKeys field rest (Suc i) (if fk \<noteq> 0 \<and> \<not> InInt64Slice fks fk then fks @ [fk] else fks)
         (if fk \<noteq> 0 \<and> \<not> InInt64Slice fks fk then AList.update fk i m else m)"
  by simp

lemma sliceManyKeys_Inl:
  "GetInt64PrimaryKey inst (PrimaryKeyFieldName field) = Inl e \<Longrightarrow>
     sliceManyKeys field (inst # rest) i fks m = Inl e"
  by simp

lemma sliceManyKeys_collect:
  "sliceManyKeys field slc i fks m = Inr (fks', m') \<Longrightarrow> distinct fks \<Longrightarrow> 0 \<notin> set fks \<Longrightarrow>
     distinct fks' \<and> 0 \<notin> set fks'
     \<and> set fks' = set fks \<union> {k. k \<noteq> 0 \<and>
          (\<exists>x \<in> set slc. GetInt64PrimaryKey x (PrimaryKeyFieldName field) = Inr k)}"
proof (induction slc arbitrary: i fks m)
  case Nil
  then show ?case by simp
next
  case (Cons inst rest)
  show ?case
  proof (cases "GetInt64PrimaryKey inst (PrimaryKeyFieldName field)")
    case (Inl e)
    from sliceManyKeys_Inl[OF Inl] Cons.prems(1) show ?thesis by simp
  next
    case fk: (Inr fk)
    from Cons.prems(1) have rec:
      "sliceManyKeys field rest (Suc i) (if fk \<noteq> 0 \<and> \<not> InInt64Slice fks fk then fks @ [fk] else fks)
         (if fk \<noteq> 0 \<and> \<not> InInt64Slice fks fk then AList.update fk i m else m)
        = Inr (fks', m')"
      unfolding sliceManyKeys_Cons[OF fk] .
    from Cons.IH[OF rec collected_key_props(1)[OF Cons.prems(2)] collected_key_props(2)[OF Cons.prems(3)]]
    have ih: "distinct fks'" "0 \<notin> set fks'"
      "set fks' = set (if fk \<noteq> 0 \<and> \<not> InInt64Slice fks fk then fks @ [fk] else fks) \<union> {k. k \<noteq> 0 \<and>
        (\<exists>x \<in> set rest. GetInt64PrimaryKey x (PrimaryKeyFieldName field) = Inr k)}"
      by blast+
    have "set fks' = set fks \<union> ({k. k \<noteq> 0 \<and> k = fk} \<union> {k. k \<noteq> 0 \<and>
        (\<exists>x \<in> set rest. GetInt64PrimaryKey x (PrimaryKeyFieldName field) = Inr k)})"
      unfolding ih(3) collected_key_props(3) by (simp only: Un_assoc)
    then have "set fks' = set fks \<union> {k. k \<noteq> 0 \<and>
        (\<exists>x \<in> set (inst # rest). GetInt64PrimaryKey x (PrimaryKeyFieldName field) = Inr k)}"
      unfolding keys_Cons[of "\<lambda>x. GetInt64PrimaryKey x (PrimaryKeyFieldName field)", OF fk] .
    with ih(1,2) show ?thesis by blast
  qed
qed

lemma sliceOneKeys_total:
  "\<forall>x \<in> set slc. (\<exists>pk. GetInt64PrimaryKey x (PrimaryKeyFieldName field) = Inr pk)
       \<and> (\<exists>fk. GetInt64PrimaryKey x (RelationFieldName field) = Inr fk) \<Longrightarrow>
     \<exists>r. sliceOneKeys field slc i fks m = Inr r"
proof (induction slc arbitrary: i fks m)
  case Nil
  then show ?case by simp
next
  case (Cons inst rest)
  from Cons.prems obtain pk fk where
    k: "GetInt64PrimaryKey inst (PrimaryKeyFieldName field) = Inr pk"
       "GetInt64PrimaryKey inst (RelationFieldName field) = Inr fk" by auto
  from Cons.prems have "\<forall>x \<in> set rest.
       (\<exists>pk. GetInt64PrimaryKey x (PrimaryKeyFieldName field) = Inr pk)
       \<and> (\<exists>fk. GetInt64PrimaryKey x (RelationFieldName field) = Inr fk)" by simp
  from Cons.IH[OF this] show ?case unfolding sliceOneKeys_Cons[OF k] .
qed

lemma sliceManyKeys_total:
  "\<forall>x \<in> set slc. \<exists>pk. GetInt64PrimaryKey x (PrimaryKeyFieldName field) = Inr pk \<Longrightarrow>
     \<exists>r. sliceManyKeys field slc i fks m = Inr r"
proof (induction slc arbitrary: i fks m)
  case Nil
  then show ?case by simp
next
  case (Cons inst rest)
  from Cons.prems obtain fk where
    k: "GetInt64PrimaryKey inst (PrimaryKeyFieldName field) = Inr fk" by auto
  from Cons.prems have
    "\<forall>x \<in> set rest. \<exists>pk. GetInt64PrimaryKey x (PrimaryKeyFieldName field) = Inr pk" by simp
  from Cons.IH[OF this] show ?case unfolding sliceManyKeys_Cons[OF k] .
qed

lemma FindByParamsWithQueries_one:
  "whereQuery env model params False = Inr (query, args) \<Longrightarrow>
     \<exists>e rows. FindByParamsWithQueries env driver model out params =
       ([\<lparr>QueryField = zeroField, QueryText = query, Args = args, Params = params,
           FetchOne = False\<rparr>], e,
        driver\<lparr>calls := calls driver @ [CallSelect out (Rebind driver query) args]\<rparr>, rows)"
  by (auto simp: FindByParamsWithQueries_def Let_def driverSelect_def split: sum.splits)

lemma preloadSliceOne_query:
  assumes keys: "sliceOneKeys field slc 0 [] [] = Inr (fks, m)"
    and fkey: "ForeignKey field = Some fkey"
    and wq: "whereQuery env (RefModel (Reference fkey))
               [(RelationColumnName field, SliceV (map IntV fks))] False = Inr (query, args)"
  shows "fst (preloadSliceOne env driver slc field)
           = [\<lparr>QueryField = zeroField, QueryText = query, Args = args,
                Params = [(RelationColumnName field, SliceV (map IntV fks))],
                FetchOne = False\<rparr>]
         \<and> calls (fst (snd (snd (preloadSliceOne env driver slc field))))
           = calls driver @ [CallSelect (SliceV []) (Rebind driver query) args]"
proof -
  from FindByParamsWithQueries_one[OF wq, of driver "SliceV []"] obtain e rows where
    "FindByParamsWithQueries env driver (RefModel (Reference fkey)) (SliceV [])
        [(RelationColumnName field, SliceV (map IntV fks))] =
       ([\<lparr>QueryField = zeroField, QueryText = query, Args = args,
           Params = [(RelationColumnName field, SliceV (map IntV fks))], FetchOne = False\<rparr>], e,
        driver\<lparr>calls := calls driver @ [CallSelect (SliceV []) (Rebind driver query) args]\<rparr>,
        rows)" by blast
  note F = this
  show ?thesis
  proof (cases e)
    case (Some x)
    with keys fkey F show ?thesis by (simp add: preloadSliceOne_def)
  next
    case None
    obtain e' slc' where
      "setAllRelations field fkey (rangeValues env m) rows slc = (e', slc')"
      by (cases "setAllRelations field fkey (rangeValues env m) rows slc")
    with None keys fkey F show ?thesis by (simp add: preloadSliceOne_def)
  qed
qed

lemma preloadSliceMany_query:
  assumes keys: "sliceManyKeys field slc 0 [] [] = Inr (fks, m)"
    and fkey: "ForeignKey field = Some fkey"
    and wq: "whereQuery env (Model fkey)
               [(RelationColumnName field, SliceV (map IntV fks))] False = Inr (query, args)"
  shows "fst (preloadSliceMany env driver True slc field)
           = [\<lparr>QueryField = zeroField, QueryText = query, Args = args,
                Params = [(RelationColumnName field, SliceV (map IntV fks))],
                FetchOne = False\<rparr>]
         \<and> calls (fst (snd (snd (preloadSliceMany env driver True slc field))))
           = calls driver @ [CallSelect (SliceV []) (Rebind driver query) args]"
proof -
  from FindByParamsWithQueries_one[OF wq, of driver "SliceV []"] obtain e rows where
    "FindByParamsWithQueries env driver (Model fkey) (SliceV [])
        [(RelationColumnName field, SliceV (map IntV fks))] =
       ([\<lparr>QueryField = zeroField, QueryText = query, Args = args,
           Params = [(RelationColumnName field, SliceV (map IntV fks))], FetchOne = False\<rparr>], e,
        driver\<lparr>calls := calls driver @ [CallSelect (SliceV []) (Rebind driver query) args]\<rparr>,
        rows)" by blast
  note F = this
  show ?thesis
  proof (cases e)
    case (Some x)
    with keys fkey F show ?thesis by (simp add: preloadSliceMany_def)
  next
    case None
    show ?thesis
    proof (cases "groupRelations fkey (rangeOrder env (map fst m)) rows []")
      case (Inl x)
      with None keys fkey F show ?thesis by (simp add: preloadSliceMany_def)
    next
      case (Inr ir)
      obtain e' slc' where
        "setGroups fkey m (rangeOrder env (map fst ir)) slc = (e', slc')"
        by (cases "setGroups fkey m (rangeOrder env (map fst ir)) slc")
      with Inr None keys fkey F show ?thesis by (simp add: preloadSliceMany_def)
    qed
  qed
qed

text \<open>
  C3. For a slice whose elements all have readable keys, and when building the
  statement succeeds, \<^verbatim>\<open>preloadSliceOne\<close> and \<^verbatim>\<open>preloadSliceMany\<close> each record and
  issue exactly one statement, whatever the number of elements: the driver gets one
  \<^verbatim>\<open>Select\<close>. The value of its parameter is the list of the collected keys, which are
  distinct, are not zero, and are exactly the non-zero keys of the elements (so there are
  as many as the elements have distinct non-zero keys): the foreign keys for a to-one
  association, the primary keys for a to-many one.
\<close>

theorem preloadSlice_one_batched_query:
  assumes fkey: "ForeignKey field = Some fkey"
    and keys: "\<forall>x \<in> set slc.
                 (\<exists>pk. GetInt64PrimaryKey x (PrimaryKeyFieldName field) = Inr pk)
                 \<and> (\<exists>fk. GetInt64PrimaryKey x (RelationFieldName field) = Inr fk)"
    and wq: "\<forall>model params. \<exists>query args. whereQuery env model params False = Inr (query, args)"
  shows "(\<exists>q ks. fst (preloadSliceOne env driver slc field) = [q]
            \<and> Params q = [(RelationColumnName field, SliceV (map IntV ks))]
            \<and> distinct ks \<and> 0 \<notin> set ks
            \<and> set ks = {k. k \<noteq> 0 \<and>
                 (\<exists>x \<in> set slc. GetInt64PrimaryKey x (RelationFieldName field) = Inr k)}
            \<and> length ks = card {k. k \<noteq> 0 \<and>
                 (\<exists>x \<in> set slc. GetInt64PrimaryKey x (RelationFieldName field) = Inr k)}
            \<and> calls (fst (snd (snd (preloadSliceOne env driver slc field))))
                 = calls driver @ [CallSelect (SliceV []) (Rebind driver (QueryText q)) (Args q)])
       \<and> (\<exists>q ks. fst (preloadSliceMany env driver True slc field) = [q]
            \<and> Params q = [(RelationColumnName field, SliceV (map IntV ks))]
            \<and> distinct ks \<and> 0 \<notin> set ks
            \<and> set ks = {k. k \<noteq> 0 \<and>
                 (\<exists>x \<in> set slc. GetInt64PrimaryKey x (PrimaryKeyFieldName field) = Inr k)}
            \<and> length ks = card {k. k \<noteq> 0 \<and>
                 (\<exists>x \<in> set slc. GetInt64PrimaryKey x (PrimaryKeyFieldName field) = Inr k)}
            \<and> calls (fst (snd (snd (preloadSliceMany env driver True slc field))))
                 = calls driver @ [CallSelect (SliceV []) (Rebind driver (QueryText q)) (Args q)])"
proof (rule conjI)
  from sliceOneKeys_total[OF keys, of 0 "[]" "[]"] obtain fks m where
    k: "sliceOneKeys field slc 0 [] [] = Inr (fks, m)" by force
  from wq obtain query args where
    w: "whereQuery env (RefModel (Reference fkey))
          [(RelationColumnName field, SliceV (map IntV fks))] False = Inr (query, args)"
    by blast
  let ?q = "\<lparr>QueryField = zeroField, QueryText = query, Args = args,
              Params = [(RelationColumnName field, SliceV (map IntV fks))], FetchOne = False\<rparr>"
  from sliceOneKeys_collect[OF k] have c: "distinct fks" "0 \<notin> set fks"
    "set fks = {k. k \<noteq> 0 \<and>
       (\<exists>x \<in> set slc. GetInt64PrimaryKey x (RelationFieldName field) = Inr k)}"
    by auto
  from distinct_card[OF c(1)] c(3) have "length fks = card {k. k \<noteq> 0 \<and>
       (\<exists>x \<in> set slc. GetInt64PrimaryKey x (RelationFieldName field) = Inr k)}" by simp
  with preloadSliceOne_query[OF k fkey w, of driver] c
  show "\<exists>q ks. fst (preloadSliceOne env driver slc field) = [q]
            \<and> Params q = [(RelationColumnName field, SliceV (map IntV ks))]
            \<and> distinct ks \<and> 0 \<notin> set ks
            \<and> set ks = {k. k \<noteq> 0 \<and>
                 (\<exists>x \<in> set slc. GetInt64PrimaryKey x (RelationFieldName field) = Inr k)}
            \<and> length ks = card {k. k \<noteq> 0 \<and>
                 (\<exists>x \<in> set slc. GetInt64PrimaryKey x (RelationFieldName field) = Inr k)}
            \<and> calls (fst (snd (snd (preloadSliceOne env driver slc field))))
                 = calls driver @ [CallSelect (SliceV []) (Rebind driver (QueryText q)) (Args q)]"
    by (intro exI[of _ ?q] exI[of _ fks]) simp
next
  from keys have "\<forall>x \<in> set slc. \<exists>pk. GetInt64PrimaryKey x (PrimaryKeyFieldName field) = Inr pk"
    by blast
  from sliceManyKeys_total[OF this, of 0 "[]" "[]"] obtain fks m where
    k: "sliceManyKeys field slc 0 [] [] = Inr (fks, m)" by force
  from wq obtain query args where
    w: "whereQuery env (Model fkey)
          [(RelationColumnName field, SliceV (map IntV fks))] False = Inr (query, args)"
    by blast
  let ?q = "\<lparr>QueryField = zeroField, QueryText = query, Args = args,
              Params = [(RelationColumnName field, SliceV (map IntV fks))], FetchOne = False\<rparr>"
  from sliceManyKeys_collect[OF k] have c: "distinct fks" "0 \<notin> set fks"
    "set fks = {k. k \<noteq> 0 \<and>
       (\<exists>x \<in> set slc. GetInt64PrimaryKey x (PrimaryKeyFieldName field) = Inr k)}"
    by auto
  from distinct_card[OF c(1)] c(3) have "length fks = card {k. k \<noteq> 0 \<and>
       (\<exists>x \<in> set slc. GetInt64PrimaryKey x (PrimaryKeyFieldName field) = Inr k)}" by simp
  with preloadSliceMany_query[OF k fkey w, of driver] c
  show "\<exists>q ks. fst (preloadSliceMany env driver True slc field) = [q]
            \<and> Params q = [(RelationColumnName field, SliceV (map IntV ks))]
            \<and> distinct ks \<and> 0 \<notin> set ks
            \<and> set ks = {k. k \<noteq> 0 \<and>
                 (\<exists>x \<in> set slc. GetInt64PrimaryKey x (PrimaryKeyFieldName field) = Inr k)}
            \<and> length ks = card {k. k \<noteq> 0 \<and>
                 (\<exists>x \<in> set slc. GetInt64PrimaryKey x (PrimaryKeyFieldName field) = Inr k)}
            \<and> calls (fst (snd (snd (preloadSliceMany env driver True slc field))))
                 = calls driver @ [CallSelect (SliceV []) (Rebind driver (QueryText q)) (Args q)]"
    by (intro exI[of _ ?q] exI[of _ fks]) simp
qed

theorem preloadSlice_one_batched_query_witness:
  "(\<exists>q ks. fst (preloadSliceOne exEnv okDriver exArticles exAuthor) = [q]
      \<and> Params q = [(RelationColumnName exAuthor, SliceV (map IntV ks))]
      \<and> distinct ks \<and> 0 \<notin> set ks
      \<and> set ks = {k. k \<noteq> 0 \<and>
           (\<exists>x \<in> set exArticles. GetInt64PrimaryKey x (RelationFieldName exAuthor) = Inr k)}
      \<and> length ks = card {k. k \<noteq> 0 \<and>
           (\<exists>x \<in> set exArticles. GetInt64PrimaryKey x (RelationFieldName exAuthor) = Inr k)}
      \<and> calls (fst (snd (snd (preloadSliceOne exEnv okDriver exArticles exAuthor))))
           = calls okDriver @ [CallSelect (SliceV []) (Rebind okDriver (QueryText q)) (Args q)])
   \<and> map Params (fst (preloadSliceOne exEnv okDriver exArticles exAuthor))
       = [[(''id'', SliceV [IntV 5, IntV 6])]]
   \<and> map Params (fst (preloadSliceMany exEnv okDriver True exArticles exAuthor))
       = [[(''id'', SliceV [IntV 1, IntV 2, IntV 3, IntV 4])]]"
proof -
  have f: "ForeignKey exAuthor = Some \<lparr>FieldName = ''AuthorID'',
       AssociationFieldName = ''Author'', Model = exArticle 0 0,
       Reference = \<lparr>RefColumnName = ''id'', RefModel = exUser 0,
         RefAssociationFieldName = ''Author''\<rparr>\<rparr>"
    by (simp add: exAuthor_def)
  have n: "PrimaryKeyFieldName exAuthor = ''ID''" "RelationFieldName exAuthor = ''AuthorID''"
    by (simp_all add: exAuthor_def)
  have k: "\<forall>x \<in> set exArticles.
             (\<exists>pk. GetInt64PrimaryKey x (PrimaryKeyFieldName exAuthor) = Inr pk)
             \<and> (\<exists>fk. GetInt64PrimaryKey x (RelationFieldName exAuthor) = Inr fk)"
    unfolding n
    by (simp add: exArticles_def exArticle_def GetInt64PrimaryKey_def GetFieldValue_def
        GetField_def)
  have w: "\<forall>model params. \<exists>query args.
             whereQuery exEnv model params False = Inr (query, args)"
    by (simp add: whereQuery_def exEnv_def)
  have e1: "map Params (fst (preloadSliceOne exEnv okDriver exArticles exAuthor))
       = [[(''id'', SliceV [IntV 5, IntV 6])]]"
    by code_simp
  have e2: "map Params (fst (preloadSliceMany exEnv okDriver True exArticles exAuthor))
       = [[(''id'', SliceV [IntV 1, IntV 2, IntV 3, IntV 4])]]"
    by code_simp
  from preloadSlice_one_batched_query[OF f k w, of okDriver] e1 e2
  show ?thesis by blast
qed

section \<open>Schema introspection: properties\<close>

lemma newColumn_returns: "\<exists>c. newColumn toSnakeCase table field tag isRelated isReference = Inr c"
  by (simp add: newColumn_def Let_def)

lemma schemaFields_panics:
  "\<exists>sf \<in> set fs. (sfKind sf = KStruct \<or> sfKind sf = KPtr) \<and> sfModel sf = None \<Longrightarrow>
     \<exists>msg. schemaFields toSnakeCase model fs schema = Inl (GoPanic msg)"
proof (induction fs arbitrary: schema)
  case Nil
  then show ?case by simp
next
  case (Cons sf rest)
  show ?case
  proof (cases "(sfKind sf = KStruct \<or> sfKind sf = KPtr) \<and> sfModel sf = None")
    case True
    then show ?thesis by (auto simp: newRelatedField_def)
  next
    case False
    with Cons.prems have r:
      "\<exists>sf \<in> set rest. (sfKind sf = KStruct \<or> sfKind sf = KPtr) \<and> sfModel sf = None"
      by auto
    show ?thesis
    proof (cases "sfKind sf = KStruct \<or> sfKind sf = KPtr")
      case True
      with False obtain related where m: "sfModel sf = Some related" by auto
      obtain fk where fk: "newColumn toSnakeCase (mTableName model) (sfName sf) (sfDbTag sf)
          True False = Inr fk" using newColumn_returns by blast
      obtain ref where ref: "newColumn toSnakeCase related (sfName sf) (sfTag sf)
          True True = Inr ref" using newColumn_returns by blast
      from True m fk ref Cons.IH[OF r] show ?thesis
        by (simp add: newRelatedField_def)
    next
      case nk: False
      obtain col where col: "newColumn toSnakeCase (mTableName model) (sfName sf) (sfDbTag sf)
          False False = Inr col" using newColumn_returns by blast
      from nk col Cons.IH[OF r] show ?thesis by simp
    qed
  qed
qed

lemma GetSchema_panics:
  "mFields model = Some fs \<Longrightarrow>
   \<exists>sf \<in> set fs. (sfKind sf = KStruct \<or> sfKind sf = KPtr) \<and> sfModel sf = None \<Longrightarrow>
     \<exists>msg. GetSchema toSnakeCase model = Inl (GoPanic msg)"
  by (simp add: GetSchema_def schemaFields_panics)


text \<open>
  C9. The code at an entity with a field of kind struct whose type is no model
  (\<^verbatim>\<open>CreatedAt time.Time\<close>): \<^verbatim>\<open>GetSchema\<close> does not return an error value, the type
  assertion in \<^verbatim>\<open>newRelatedField\<close> panics. Without that field the same entity has a
  schema.
\<close>

theorem GetSchema_panics_on_non_model_field:
  "GetSchema exSnake exComment
     = Inl (GoPanic ''interface conversion: interface is not Model: missing method TableName'')
   \<and> \<not> returned_as_value
         (GoPanic ''interface conversion: interface is not Model: missing method TableName'')
   \<and> GetSchema exSnake exCommentPlain
     = Inr \<lparr>Columns = [(''ID'', \<lparr>ColumnTableName = ''comments'', ColumnName' = ''id'',
                                  PrefixedName = ''comments.id''\<rparr>)],
            RelatedFields = [(''User'',
              \<lparr>FK = \<lparr>ColumnTableName = ''comments'', ColumnName' = ''user_id'',
                       PrefixedName = ''comments.user_id''\<rparr>,
                FKReference = \<lparr>ColumnTableName = ''users'', ColumnName' = ''id'',
                                PrefixedName = ''users.id''\<rparr>\<rparr>)]\<rparr>"
  by code_simp

end
